theory Spec2Isabelle
  imports Complex_Main
begin

section \<open>Data model\<close>

text \<open>
  The solver of \<^verbatim>\<open>pyipm.py\<close> works on numpy arrays of floats. The embedding is over
  the reals: a vector is a list of reals, a matrix is the list of its rows, and a cast to
  the solver's float type is the identity. Where numpy would produce \<^verbatim>\<open>inf\<close> or
  \<^verbatim>\<open>nan\<close> (a division by zero) the embedding is outside its domain, and the
  theorems that depend on such a quotient exclude the zero denominator by a hypothesis.
\<close>

type_synonym vec = "real list"
type_synonym mat = "real list list"

datatype error = AssertionError | AttributeError | UnboundLocalError | LinAlgError | ValueError

text \<open>The attributes that \<^verbatim>\<open>IPM.__init__\<close> stores on the object. An attribute that
  may be absent is an option: \<open>lbfgs_zeta\<close> is assigned on one branch only.\<close>

record ipm =
  nvar :: nat
  neq :: nat
  nineq :: nat
  eps :: real
  mu :: real
  nu :: real
  rho :: real
  tau :: real
  eta :: real
  beta :: real
  miter :: nat
  niter :: nat
  Xtol :: real
  Ktol :: real
  reg_coef :: real
  lbfgs :: nat
  lbfgs_zeta :: "real option"
  lbfgs_fail_max :: nat
  verbosity :: int
  delta0 :: real

subsection \<open>Elementwise arithmetic on vectors\<close>

definition dot :: "vec \<Rightarrow> vec \<Rightarrow> real" where
  "dot u v = sum_list (map2 (*) u v)"

definition vadd :: "vec \<Rightarrow> vec \<Rightarrow> vec" where
  "vadd u v = map2 (+) u v"

definition vsub :: "vec \<Rightarrow> vec \<Rightarrow> vec" where
  "vsub u v = map2 (-) u v"

definition vmul :: "vec \<Rightarrow> vec \<Rightarrow> vec" where
  "vmul u v = map2 (*) u v"

definition smul :: "real \<Rightarrow> vec \<Rightarrow> vec" where
  "smul c v = map ((*) c) v"

definition vneg :: "vec \<Rightarrow> vec" where
  "vneg v = map uminus v"

section \<open>Fraction-to-the-boundary step: \<^verbatim>\<open>IPM.step\<close>\<close>

definition GOLD :: real where
  "GOLD = (sqrt 5 + 1) / 2"

text \<open>\<^verbatim>\<open>np.all(x + t*dx >= (1.0-self.tau)*x)\<close> and
  \<^verbatim>\<open>np.any(x + t*dx < (1.0-self.tau)*x)\<close>.\<close>

definition all_ge :: "ipm \<Rightarrow> vec \<Rightarrow> vec \<Rightarrow> real \<Rightarrow> bool" where
  "all_ge self x dx t = list_all (\<lambda>(xi, di). xi + t * di \<ge> (1 - tau self) * xi) (zip x dx)"

definition any_lt :: "ipm \<Rightarrow> vec \<Rightarrow> vec \<Rightarrow> real \<Rightarrow> bool" where
  "any_lt self x dx t = list_ex (\<lambda>(xi, di). xi + t * di < (1 - tau self) * xi) (zip x dx)"

text \<open>The \<^verbatim>\<open>while\<close> loop of \<^verbatim>\<open>step\<close>; \<open>None\<close> is a loop that never ends.\<close>

partial_function (option) step_loop ::
  "ipm \<Rightarrow> vec \<Rightarrow> vec \<Rightarrow> real \<Rightarrow> real \<Rightarrow> real \<Rightarrow> real \<Rightarrow> real option" where
  "step_loop self x dx a b c d =
     (if \<bar>b - a\<bar> > GOLD * Xtol self then
        (let (a1, b1) = (if any_lt self x dx d then (a, d) else (d, b));
             (a2, b2) = (if c > a1
                         then (if any_lt self x dx c then (a1, c) else (c, b1))
                         else (a1, b1))
         in step_loop self x dx a2 b2 (b2 - (b2 - a2) / GOLD) (a2 + (b2 - a2) / GOLD))
      else Some a)"

definition step :: "ipm \<Rightarrow> vec \<Rightarrow> vec \<Rightarrow> real option" where
  "step self x dx =
     (let a = 0; b = 1 in
      if all_ge self x dx b then Some b
      else step_loop self x dx a b (b - (b - a) / GOLD) (a + (b - a) / GOLD))"

section \<open>The compiled expressions of \<^verbatim>\<open>validate_and_compile\<close>\<close>

text \<open>
  The problem's functions are opaque oracles, as the symbolic front end supplies them:
  the objective \<open>cost\<close>, its gradient \<open>df\<close> (the user's \<^verbatim>\<open>df\<close>, or the automatic
  gradient), \<open>gradf\<close> (always the automatic gradient, which \<^verbatim>\<open>init_lambda\<close> uses),
  the constraints \<open>ce\<close>, \<open>ci\<close>, their Jacobians \<open>dce\<close> (D rows of M entries), \<open>dci\<close>
  (D rows of N entries), and \<open>hess\<close>, the compiled symmetric KKT matrix. A constraint
  set that is absent is never evaluated.
\<close>

record problem =
  cost :: "vec \<Rightarrow> real"
  df :: "vec \<Rightarrow> vec"
  gradf :: "vec \<Rightarrow> vec"
  ce :: "vec \<Rightarrow> vec"
  dce :: "vec \<Rightarrow> mat"
  ci :: "vec \<Rightarrow> vec"
  dci :: "vec \<Rightarrow> mat"
  hess :: "vec \<Rightarrow> vec \<Rightarrow> vec \<Rightarrow> mat"

text \<open>\<^verbatim>\<open>T.set_subtensor(v[lo:hi], w)\<close> on a vector, and the matrix-vector product
  \<^verbatim>\<open>T.dot(A, v)\<close>.\<close>

definition set_sub :: "vec \<Rightarrow> nat \<Rightarrow> nat \<Rightarrow> vec \<Rightarrow> vec" where
  "set_sub v lo hi w = take lo v @ w @ drop hi v"

definition zeros :: "nat \<Rightarrow> vec" where
  "zeros n = replicate n 0"

definition mv :: "mat \<Rightarrow> vec \<Rightarrow> vec" where
  "mv A v = map (\<lambda>row. dot row v) A"

definition sum_abs :: "vec \<Rightarrow> real" where
  "sum_abs v = sum_list (map abs v)"

text \<open>\<^verbatim>\<open>grad\<close>: the stacked residual, blocks [primal, slack, equality, inequality];
  \<open>mu_dev\<close> is the shared barrier variable the expression reads.\<close>

definition grad :: "ipm \<Rightarrow> problem \<Rightarrow> real \<Rightarrow> vec \<Rightarrow> vec \<Rightarrow> vec \<Rightarrow> vec" where
  "grad self P mu_dev x s lda =
    (let D = nvar self; M = neq self; N = nineq self;
         g0 = zeros (D + 2 * N + M);
         g1 = (if M \<noteq> 0 \<and> N \<noteq> 0 then
                 set_sub g0 0 D (vsub (vsub (df P x) (mv (dce P x) (take M lda)))
                                      (mv (dci P x) (drop M lda)))
               else if M \<noteq> 0 then set_sub g0 0 D (vsub (df P x) (mv (dce P x) lda))
               else if N \<noteq> 0 then set_sub g0 0 D (vsub (df P x) (mv (dci P x) lda))
               else set_sub g0 0 D (df P x));
         g2 = (if N \<noteq> 0 then
                 set_sub (set_sub g1 D (D + N)
                            (vsub (drop M lda) (map (\<lambda>si. mu_dev / (si + eps self)) s)))
                         (D + N + M) (D + 2 * N + M) (vsub (ci P x) s)
               else g1)
     in if M \<noteq> 0 then set_sub g2 (D + N) (D + N + M) (ce P x) else g2)"

text \<open>The merit function \<^verbatim>\<open>phi\<close> and its directional derivative \<^verbatim>\<open>dphi\<close>.\<close>

definition phi :: "ipm \<Rightarrow> problem \<Rightarrow> real \<Rightarrow> real \<Rightarrow> vec \<Rightarrow> vec \<Rightarrow> real" where
  "phi self P mu_dev nu_dev x s =
    (let p0 = cost P x;
         p1 = (if nineq self \<noteq> 0
               then p0 - mu_dev * sum_list (map ln s) + nu_dev * sum_abs (vsub (ci P x) s)
               else p0)
     in if neq self \<noteq> 0 then p1 + nu_dev * sum_abs (ce P x) else p1)"

definition dphi :: "ipm \<Rightarrow> problem \<Rightarrow> real \<Rightarrow> real \<Rightarrow> vec \<Rightarrow> vec \<Rightarrow> vec \<Rightarrow> real" where
  "dphi self P mu_dev nu_dev x s dz =
    (let D = nvar self; M = neq self; N = nineq self;
         d0 = dot (df P x) (take D dz);
         d1 = (if M \<noteq> 0 \<and> N \<noteq> 0
               then d0 - (nu_dev * sum_abs (ce P x) + nu_dev * sum_abs (vsub (ci P x) s))
               else if M \<noteq> 0 then d0 - nu_dev * sum_abs (ce P x)
               else if N \<noteq> 0 then d0 - nu_dev * sum_abs (vsub (ci P x) s)
               else d0)
     in if N \<noteq> 0 then d1 - dot (map (\<lambda>si. mu_dev / (si + eps self)) s) (drop D dz) else d1)"

text \<open>\<^verbatim>\<open>con\<close>, the stacked constraints, and \<^verbatim>\<open>jaco\<close>, their Jacobian with
  \<open>D + N\<close> rows and \<open>M + N\<close> columns (both compiled only when a constraint is present).\<close>

definition con :: "ipm \<Rightarrow> problem \<Rightarrow> vec \<Rightarrow> vec \<Rightarrow> vec" where
  "con self P x s =
    (let M = neq self; N = nineq self;
         c0 = zeros (M + N);
         c1 = (if M \<noteq> 0 then set_sub c0 0 M (ce P x) else c0)
     in if N \<noteq> 0 then set_sub c1 M (M + N) (vsub (ci P x) s) else c1)"

definition unit_row :: "nat \<Rightarrow> nat \<Rightarrow> real \<Rightarrow> vec" where
  "unit_row n j c = (zeros n)[j := c]"

definition jaco :: "ipm \<Rightarrow> problem \<Rightarrow> vec \<Rightarrow> mat" where
  "jaco self P x =
    (let D = nvar self; M = neq self; N = nineq self;
         JE = (if M \<noteq> 0 then dce P x else replicate D []);
         JI = (if N \<noteq> 0 then dci P x else replicate D [])
     in map2 (@) JE JI @ map (\<lambda>j. zeros M @ unit_row N j (- 1)) [0..<N])"

definition barrier_cost_grad :: "ipm \<Rightarrow> problem \<Rightarrow> real \<Rightarrow> vec \<Rightarrow> vec \<Rightarrow> vec" where
  "barrier_cost_grad self P mu_dev x s =
    (let D = nvar self; N = nineq self;
         b0 = set_sub (zeros (D + N)) 0 D (df P x)
     in if N \<noteq> 0 then set_sub b0 D (D + N) (map (\<lambda>si. - mu_dev / (si + eps self)) s) else b0)"

text \<open>\<^verbatim>\<open>init_slack\<close>: the elementwise maximum of \<open>ci\<close> and \<open>Ktol\<close>.\<close>

definition init_slack :: "ipm \<Rightarrow> problem \<Rightarrow> vec \<Rightarrow> vec" where
  "init_slack self P x = map (\<lambda>c. max c (Ktol self)) (ci P x)"

section \<open>First-order conditions: \<^verbatim>\<open>IPM.KKT\<close>\<close>

text \<open>A block of the result is an array, or the scalar \<^verbatim>\<open>float_dtype(0.0)\<close>.\<close>

datatype kkt_block = Arr vec | Scalar real

definition slice :: "vec \<Rightarrow> nat \<Rightarrow> nat \<Rightarrow> vec" where
  "slice v lo hi = take (hi - lo) (drop lo v)"

definition KKT :: "ipm \<Rightarrow> problem \<Rightarrow> real \<Rightarrow> vec \<Rightarrow> vec \<Rightarrow> vec \<Rightarrow> kkt_block list" where
  "KKT self P mu_dev x s lda =
    (let D = nvar self; M = neq self; N = nineq self;
         kkts = grad self P mu_dev x s lda
     in if M \<noteq> 0 \<and> N \<noteq> 0 then
          [Arr (take D kkts), Arr (vmul (slice kkts D (D + N)) s),
           Arr (slice kkts (D + N) (D + N + M)), Arr (drop (D + N + M) kkts)]
        else if M \<noteq> 0 then
          [Arr (take D kkts), Scalar 0, Arr (slice kkts (D + N) (D + N + M)), Scalar 0]
        else if N \<noteq> 0 then
          [Arr (take D kkts), Arr (vmul (slice kkts D (D + N)) s), Scalar 0,
           Arr (drop (D + N + M) kkts)]
        else [Arr (take D kkts), Scalar 0, Scalar 0, Scalar 0])"

text \<open>\<^verbatim>\<open>np.linalg.norm\<close> of a block, and the test that all four norms are within a
  tolerance.\<close>

fun np_norm :: "kkt_block \<Rightarrow> real" where
  "np_norm (Arr v) = sqrt (sum_list (map (\<lambda>a. a * a) v))"
| "np_norm (Scalar r) = \<bar>r\<bar>"

definition kkt_within :: "real \<Rightarrow> kkt_block list \<Rightarrow> bool" where
  "kkt_within tol kkt =
    (np_norm (kkt ! 0) \<le> tol \<and> np_norm (kkt ! 1) \<le> tol \<and>
     np_norm (kkt ! 2) \<le> tol \<and> np_norm (kkt ! 3) \<le> tol)"

text \<open>The slack block as the specification words it: \<open>(lda[M:] - mu / s) * s\<close>.\<close>

definition kkt2_as_specified :: "ipm \<Rightarrow> real \<Rightarrow> vec \<Rightarrow> vec \<Rightarrow> vec" where
  "kkt2_as_specified self mu_dev s lda =
     vmul (vsub (drop (neq self) lda) (map (\<lambda>si. mu_dev / si) s)) s"

section \<open>Construction: \<^verbatim>\<open>IPM.__init__\<close>\<close>

text \<open>The keyword arguments of the constructor that the solver reads. \<open>k_eps\<close> is
  \<^verbatim>\<open>np.finfo(float_dtype).eps\<close>; \<open>k_lbfgs = 0\<close> is \<^verbatim>\<open>lbfgs=False\<close>; an
  argument whose default is \<^verbatim>\<open>None\<close> is an option.\<close>

record kwargs =
  k_eps :: real
  k_mu :: real
  k_nu :: real
  k_rho :: real
  k_tau :: real
  k_eta :: real
  k_beta :: real
  k_miter :: nat
  k_niter :: nat
  k_Xtol :: "real option"
  k_Ktol :: real
  k_lbfgs :: nat
  k_lbfgs_zeta :: "real option"
  k_verbosity :: int

text \<open>The defaults of the signature, with the default \<^verbatim>\<open>float_dtype=np.float32\<close>.\<close>

definition defaults :: kwargs where
  "defaults = \<lparr> k_eps = 1 / 2 ^ 23, k_mu = 2 / 10, k_nu = 10, k_rho = 1 / 10,
     k_tau = 995 / 1000, k_eta = 1 / 10 ^ 4, k_beta = 4 / 10, k_miter = 20, k_niter = 10,
     k_Xtol = None, k_Ktol = 1 / 10 ^ 4, k_lbfgs = 0, k_lbfgs_zeta = None, k_verbosity = 1 \<rparr>"

text \<open>
  \<open>init kw D M N\<close> is the object after \<^verbatim>\<open>__init__\<close>, with the sizes \<open>nvar\<close>,
  \<open>neq\<close>, \<open>nineq\<close> that \<^verbatim>\<open>solve\<close> and \<^verbatim>\<open>validate_and_compile\<close> store later.
  \<^verbatim>\<open>if Xtol:\<close> takes \<open>eps\<close> for \<^verbatim>\<open>None\<close> and for zero.
  \<^verbatim>\<open>self.lbfgs_zeta\<close> is assigned only under
  \<^verbatim>\<open>if self.lbfgs and lbfgs_zeta is None\<close>: otherwise the attribute does not exist.
\<close>

definition init :: "kwargs \<Rightarrow> nat \<Rightarrow> nat \<Rightarrow> nat \<Rightarrow> ipm" where
  "init kw D M N =
    \<lparr> nvar = D, neq = M, nineq = N, eps = k_eps kw, mu = k_mu kw, nu = k_nu kw,
      rho = k_rho kw, tau = k_tau kw, eta = k_eta kw, beta = k_beta kw,
      miter = k_miter kw, niter = k_niter kw,
      Xtol = (case k_Xtol kw of None \<Rightarrow> k_eps kw
              | Some t \<Rightarrow> if t \<noteq> 0 then t else k_eps kw),
      Ktol = k_Ktol kw, reg_coef = sqrt (k_eps kw), lbfgs = k_lbfgs kw,
      lbfgs_zeta = (if k_lbfgs kw \<noteq> 0 \<and> k_lbfgs_zeta kw = None then Some 1 else None),
      lbfgs_fail_max = k_lbfgs kw, verbosity = k_verbosity kw,
      delta0 = sqrt (k_eps kw) \<rparr>"

text \<open>The gradient of the Lagrangian in \<open>x\<close> as the specification words it; the term of
  an absent constraint set is dropped.\<close>

definition kkt1_as_specified :: "ipm \<Rightarrow> problem \<Rightarrow> vec \<Rightarrow> vec \<Rightarrow> vec" where
  "kkt1_as_specified self P x lda =
     vsub (vsub (df P x)
             (if neq self \<noteq> 0 then mv (dce P x) (take (neq self) lda) else zeros (nvar self)))
          (if nineq self \<noteq> 0 then mv (dci P x) (drop (neq self) lda) else zeros (nvar self))"

section \<open>Example problems\<close>

text \<open>Minimise \<open>x\<^sup>2\<close> subject to the inequality \<open>x \<ge> 0\<close> (D = 1, M = 0, N = 1), with its
  compiled KKT matrix.\<close>

definition ineq_problem :: problem where
  "ineq_problem = \<lparr> cost = (\<lambda>x. x ! 0 * x ! 0), df = (\<lambda>x. [2 * x ! 0]),
     gradf = (\<lambda>x. [2 * x ! 0]), ce = (\<lambda>x. []), dce = (\<lambda>x. [[]]),
     ci = (\<lambda>x. [x ! 0]), dci = (\<lambda>x. [[1]]),
     hess = (\<lambda>x s lda. [[2, 0, 1], [0, lda ! 0 / (s ! 0 + 1 / 2 ^ 23), - 1], [1, - 1, 0]]) \<rparr>"

text \<open>Minimise \<open>x\<^sup>2\<close> subject to the equality \<open>x = 0\<close> (D = 1, M = 1, N = 0).\<close>

definition eq_problem :: problem where
  "eq_problem = \<lparr> cost = (\<lambda>x. x ! 0 * x ! 0), df = (\<lambda>x. [2 * x ! 0]),
     gradf = (\<lambda>x. [2 * x ! 0]), ce = (\<lambda>x. [x ! 0]), dce = (\<lambda>x. [[1]]),
     ci = (\<lambda>x. []), dci = (\<lambda>x. [[]]),
     hess = (\<lambda>x s lda. [[2, 1], [1, 0]]) \<rparr>"

section \<open>The linear-algebra kernel\<close>

text \<open>
  The dense kernel is an external collaborator, taken as a record of oracles:
  \<open>eigh\<close> returns the eigenvalues of a symmetric matrix; \<open>sym_solve A b\<close> solves
  \<open>A z = b\<close> for a column \<open>b\<close> or raises; \<open>lstsq A b\<close> is the minimum-norm least-squares
  solution \<^verbatim>\<open>np.linalg.lstsq(A, b)[0]\<close>, which exists for every real \<open>A\<close> and \<open>b\<close>;
  \<open>pinv\<close> is the pseudoinverse. \<open>lbfgs_dir\<close> is the direction of the method
  \<^verbatim>\<open>lbfgs_dir\<close>, dense linear algebra over its arguments that may raise.
\<close>

record lbfgs_store =
  lb_zeta :: real
  lb_S :: mat
  lb_Y :: mat
  lb_SS :: mat
  lb_L :: mat
  lb_D :: mat
  lb_fail :: nat

record linalg =
  eigh :: "mat \<Rightarrow> vec"
  sym_solve :: "mat \<Rightarrow> vec \<Rightarrow> error + vec"
  lstsq :: "mat \<Rightarrow> vec \<Rightarrow> vec"
  pinv :: "mat \<Rightarrow> mat"
  lbfgs_dir :: "vec \<Rightarrow> vec \<Rightarrow> vec \<Rightarrow> vec \<Rightarrow> lbfgs_store \<Rightarrow> error + vec"

section \<open>Limited-memory storage: \<^verbatim>\<open>lbfgs_init\<close> and \<^verbatim>\<open>lbfgs_update\<close>\<close>

text \<open>\<open>S\<close> and \<open>Y\<close> have \<open>nvar\<close> rows and one column for each stored pair;
  \<open>SS\<close>, \<open>L\<close>, \<open>D\<close> are square of that size. \<^verbatim>\<open>self.float_dtype(self.lbfgs_zeta)\<close>
  raises \<^verbatim>\<open>AttributeError\<close> when the attribute was never assigned.\<close>

definition lbfgs_init :: "ipm \<Rightarrow> error + lbfgs_store" where
  "lbfgs_init self =
    (case lbfgs_zeta self of
       None \<Rightarrow> Inl AttributeError
     | Some z \<Rightarrow> Inr \<lparr> lb_zeta = z, lb_S = replicate (nvar self) [],
                        lb_Y = replicate (nvar self) [], lb_SS = [], lb_L = [], lb_D = [],
                        lb_fail = 0 \<rparr>)"

text \<open>\<^verbatim>\<open>A.shape[1]\<close> of a matrix with at least one row.\<close>

definition ncols :: "mat \<Rightarrow> nat" where
  "ncols A = (case A of [] \<Rightarrow> 0 | r # _ \<Rightarrow> length r)"

text \<open>\<^verbatim>\<open>A[:,:-1] = A[:,1:]\<close> and \<^verbatim>\<open>A[:-1,:-1] = A[1:,1:]\<close>: every entry moves one
  column to the left (and one row up); the last column (and the last row) keeps its old
  entries.\<close>

definition shift_cols :: "mat \<Rightarrow> mat" where
  "shift_cols A = map (\<lambda>r. tl r @ [last r]) A"

definition shift_diag :: "mat \<Rightarrow> mat" where
  "shift_diag A = map2 (\<lambda>below r. tl below @ [last r]) (tl A) (butlast A) @ [last A]"

text \<open>Appending a zero column, and a zero row then a zero column.\<close>

definition grow_cols :: "mat \<Rightarrow> mat" where
  "grow_cols A = map (\<lambda>r. r @ [0]) A"

definition grow_square :: "mat \<Rightarrow> mat" where
  "grow_square A = map (\<lambda>r. r @ [0]) (A @ [zeros (length A)])"

text \<open>\<^verbatim>\<open>A[:,-1] = v\<close>, \<^verbatim>\<open>A[-1,:] = v\<close> and \<^verbatim>\<open>A[-1,-1] = c\<close>.\<close>

definition set_last_col :: "mat \<Rightarrow> vec \<Rightarrow> mat" where
  "set_last_col A v = map2 (\<lambda>r c. butlast r @ [c]) A v"

definition set_last_row :: "mat \<Rightarrow> vec \<Rightarrow> mat" where
  "set_last_row A v = butlast A @ [v]"

definition set_corner :: "mat \<Rightarrow> real \<Rightarrow> mat" where
  "set_corner A c = butlast A @ [butlast (last A) @ [c]]"

text \<open>\<^verbatim>\<open>np.dot(A.T, v)\<close>: the products of the columns of \<open>A\<close> with \<open>v\<close>.\<close>

definition column :: "mat \<Rightarrow> nat \<Rightarrow> vec" where
  "column A j = map (\<lambda>r. r ! j) A"

definition mTv :: "mat \<Rightarrow> vec \<Rightarrow> vec" where
  "mTv A v = map (\<lambda>j. dot (column A j) v) [0..<ncols A]"

text \<open>The quantities of the acceptance test of \<^verbatim>\<open>lbfgs_update\<close>.\<close>

definition lbfgs_dx :: "vec \<Rightarrow> vec \<Rightarrow> vec" where
  "lbfgs_dx x_old x_new = vsub x_new x_old"

definition lbfgs_dg :: "ipm \<Rightarrow> vec \<Rightarrow> vec \<Rightarrow> vec" where
  "lbfgs_dg self g_old g_new = vsub (take (nvar self) g_old) (take (nvar self) g_new)"

definition zeta_new :: "ipm \<Rightarrow> vec \<Rightarrow> vec \<Rightarrow> real" where
  "zeta_new self dx dg =
    (if neq self \<noteq> 0 \<or> nineq self \<noteq> 0 then dot dg dx / (dot dx dx + eps self)
     else dot dg dx / (dot dg dg + eps self))"

definition lbfgs_accepts :: "ipm \<Rightarrow> vec \<Rightarrow> vec \<Rightarrow> bool" where
  "lbfgs_accepts self dx dg \<longleftrightarrow>
     dot dx dg > sqrt (eps self) \<and> zeta_new self dx dg > sqrt (eps self)"

text \<open>The accepting branch: make room (drop the oldest pair when the column count
  exceeds the memory, else grow), then write the new column, row and corner.\<close>

definition lbfgs_commit :: "ipm \<Rightarrow> vec \<Rightarrow> vec \<Rightarrow> lbfgs_store \<Rightarrow> lbfgs_store" where
  "lbfgs_commit self dx dg st =
    (let full = ncols (lb_S st) > lbfgs self;
         S0 = (if full then shift_cols (lb_S st) else grow_cols (lb_S st));
         Y0 = (if full then shift_cols (lb_Y st) else grow_cols (lb_Y st));
         SS0 = (if full then shift_diag (lb_SS st) else grow_square (lb_SS st));
         L0 = (if full then shift_diag (lb_L st) else grow_square (lb_L st));
         D0 = (if full then shift_diag (lb_D st) else grow_square (lb_D st));
         S1 = set_last_col S0 dx;
         Y1 = set_last_col Y0 dg;
         constrained = (neq self \<noteq> 0 \<or> nineq self \<noteq> 0);
         SS_update = (if constrained then mTv S1 dx else mTv Y1 dg);
         SS1 = set_last_row (set_last_col SS0 SS_update) SS_update;
         L1 = (if constrained then set_corner (set_last_row L0 (mTv Y1 dx)) 0
               else set_last_col L0 (mTv S1 dg));
         D1 = set_corner D0 (dot dx dg)
     in \<lparr> lb_zeta = zeta_new self dx dg, lb_S = S1, lb_Y = Y1, lb_SS = SS1, lb_L = L1,
          lb_D = D1, lb_fail = 0 \<rparr>)"

definition lbfgs_update ::
  "ipm \<Rightarrow> vec \<Rightarrow> vec \<Rightarrow> vec \<Rightarrow> vec \<Rightarrow> lbfgs_store \<Rightarrow> error + lbfgs_store" where
  "lbfgs_update self x_old x_new g_old g_new st =
    (let dx = lbfgs_dx x_old x_new;
         dg = lbfgs_dg self g_old g_new;
         st1 = (if dot dx dg > sqrt (eps self) \<and> zeta_new self dx dg > sqrt (eps self)
                then lbfgs_commit self dx dg st
                else st \<lparr> lb_fail := lb_fail st + 1 \<rparr>)
     in if lb_fail st1 > lbfgs_fail_max self \<and> ncols (lb_S st1) > 0
        then lbfgs_init self
        else Inr st1)"

section \<open>Inertia correction: \<^verbatim>\<open>IPM.reghess\<close>\<close>

text \<open>\<^verbatim>\<open>np.sum(w < -self.eps)\<close>, and the test \<^verbatim>\<open>rcond <= self.eps\<close> for
  \<^verbatim>\<open>rcond = np.min(np.abs(w))/np.max(np.abs(w))\<close>. When every eigenvalue is zero the
  quotient is \<^verbatim>\<open>nan\<close> in numpy and the comparison is false.\<close>

definition count_below :: "ipm \<Rightarrow> vec \<Rightarrow> nat" where
  "count_below self w = length (filter (\<lambda>v. v < - eps self) w)"

definition rcond_small :: "ipm \<Rightarrow> vec \<Rightarrow> bool" where
  "rcond_small self w =
    (let lo = Min (set (map abs w)); hi = Max (set (map abs w))
     in hi \<noteq> 0 \<and> lo / hi \<le> eps self)"

text \<open>\<^verbatim>\<open>Hc[lo:hi, lo:hi] += c*np.eye(hi-lo)\<close>.\<close>

definition add_diag :: "nat \<Rightarrow> nat \<Rightarrow> real \<Rightarrow> mat \<Rightarrow> mat" where
  "add_diag lo hi c H =
     map (\<lambda>i. if lo \<le> i \<and> i < hi then (H ! i)[i := H ! i ! i + c] else H ! i) [0..<length H]"

text \<open>The \<^verbatim>\<open>while\<close> loop of \<^verbatim>\<open>reghess\<close>: undo the shift, multiply \<open>delta\<close> by ten,
  shift again, until the count of eigenvalues below \<open>-eps\<close> is \<open>M + N\<close>. The result
  carries the new \<^verbatim>\<open>self.delta\<close>.\<close>

partial_function (option) reghess_loop ::
  "ipm \<Rightarrow> linalg \<Rightarrow> real \<Rightarrow> mat \<Rightarrow> vec \<Rightarrow> (mat \<times> real) option" where
  "reghess_loop self LA delta Hc w =
     (if neq self + nineq self \<noteq> count_below self w then
        (let Hc1 = add_diag 0 (nvar self) (- delta) Hc;
             delta1 = delta * 10;
             Hc2 = add_diag 0 (nvar self) delta1 Hc1
         in reghess_loop self LA delta1 Hc2 (eigh LA Hc2))
      else Some (Hc, delta))"

definition reghess :: "ipm \<Rightarrow> linalg \<Rightarrow> real \<Rightarrow> real \<Rightarrow> mat \<Rightarrow> (mat \<times> real) option" where
  "reghess self LA mu_host delta Hc =
    (let w = eigh LA Hc in
     if rcond_small self w \<or> neq self + nineq self \<noteq> count_below self w then
       (let Hc1 = (if rcond_small self w \<and> neq self \<noteq> 0
                   then add_diag (nvar self + nineq self) (nvar self + nineq self + neq self)
                          (- (reg_coef self * eta self * (mu_host powr beta self))) Hc
                   else Hc);
            delta1 = (if delta = 0 then delta0 self else max (delta / 2) (delta0 self));
            Hc2 = add_diag 0 (nvar self) delta1 Hc1
        in reghess_loop self LA delta1 Hc2 (eigh LA Hc2))
     else Some (Hc, delta))"

text \<open>The inertia read off a list of eigenvalues: the numbers of positive, negative and
  zero entries.\<close>

definition inertia :: "vec \<Rightarrow> nat \<times> nat \<times> nat" where
  "inertia w = (length (filter (\<lambda>v. 0 < v) w), length (filter (\<lambda>v. v < 0) w),
                length (filter (\<lambda>v. v = 0) w))"

text \<open>The kernel on diagonal matrices, where it is explicit: the eigenvalues are the
  diagonal entries in ascending order, a system is solved by division and is singular
  when a diagonal entry is zero, and the least-squares solution and the pseudoinverse
  invert the nonzero entries. Its \<open>lbfgs_dir\<close> is the direction \<open>zeta * g\<close> that the
  method returns without constraints on an empty store.\<close>

definition diagonal :: "mat \<Rightarrow> vec" where
  "diagonal A = map (\<lambda>i. A ! i ! i) [0..<length A]"

definition diag_linalg :: linalg where
  "diag_linalg = \<lparr>
     eigh = (\<lambda>A. sort (diagonal A)),
     sym_solve = (\<lambda>A b. if list_ex (\<lambda>a. a = 0) (diagonal A) then Inl LinAlgError
                         else Inr (map2 (\<lambda>a c. c / a) (diagonal A) b)),
     lstsq = (\<lambda>A b. map2 (\<lambda>a c. if a = 0 then 0 else c / a) (diagonal A) b),
     pinv = (\<lambda>A. map (\<lambda>i. (zeros (length A))[i := (if A ! i ! i = 0 then 0 else 1 / A ! i ! i)])
                   [0..<length A]),
     lbfgs_dir = (\<lambda>x s lda g st. Inr (smul (lb_zeta st) g)) \<rparr>"

text \<open>The constructor's arguments with \<^verbatim>\<open>float_dtype=np.float64\<close>.\<close>

definition float64 :: kwargs where
  "float64 = defaults \<lparr> k_eps := 1 / 2 ^ 52 \<rparr>"

text \<open>A store holding one pair after one rejected update (unconstrained mode, memory 1),
  and the store that \<^verbatim>\<open>lbfgs_init\<close> returns for \<open>zeta = 1\<close>, \<open>nvar = 1\<close>.\<close>

definition stored_pair :: lbfgs_store where
  "stored_pair = \<lparr> lb_zeta = 1 / 2, lb_S = [[1]], lb_Y = [[2]], lb_SS = [[4]], lb_L = [[2]],
     lb_D = [[2]], lb_fail = 1 \<rparr>"

definition empty_store :: lbfgs_store where
  "empty_store = \<lparr> lb_zeta = 1, lb_S = [[]], lb_Y = [[]], lb_SS = [], lb_L = [], lb_D = [],
     lb_fail = 0 \<rparr>"

section \<open>Results: exceptions and loops that never end\<close>

text \<open>A computation returns \<open>Some (Inr v)\<close>, raises \<open>Some (Inl e)\<close>, or never returns
  (\<open>None\<close>). \<open>try_except body handler\<close> is a \<^verbatim>\<open>try\<close> block with a bare \<^verbatim>\<open>except:\<close>.\<close>

type_synonym 'a result = "(error + 'a) option"

definition ret :: "'a \<Rightarrow> 'a result" where
  "ret v = Some (Inr v)"

definition raise :: "error \<Rightarrow> 'a result" where
  "raise e = Some (Inl e)"

definition bnd :: "'a result \<Rightarrow> ('a \<Rightarrow> 'b result) \<Rightarrow> 'b result" where
  "bnd m k = (case m of None \<Rightarrow> None | Some (Inl e) \<Rightarrow> Some (Inl e) | Some (Inr v) \<Rightarrow> k v)"

definition lift_opt :: "'a option \<Rightarrow> 'a result" where
  "lift_opt m = map_option Inr m"

definition lift_err :: "error + 'a \<Rightarrow> 'a result" where
  "lift_err m = Some m"

definition try_except :: "error + 'a \<Rightarrow> error + 'a \<Rightarrow> error + 'a" where
  "try_except body handler = (case body of Inr v \<Rightarrow> Inr v | Inl e \<Rightarrow> handler)"

section \<open>Line search: \<^verbatim>\<open>IPM.search\<close>\<close>

text \<open>The backtracking \<^verbatim>\<open>while\<close> loop: while the Armijo test fails at \<open>a\<close>, both step
  lengths are multiplied by \<open>tau\<close>.\<close>

partial_function (option) backtrack ::
  "(real \<Rightarrow> bool) \<Rightarrow> real \<Rightarrow> real \<Rightarrow> real \<Rightarrow> (real \<times> real) option" where
  "backtrack fails t a al =
     (if fails a then backtrack fails t (a * t) (al * t) else Some (a, al))"

text \<open>
  The feasibility restoration direction of the second-order correction. The
  \<^verbatim>\<open>try\<close> block reshapes \<open>c_new\<close> (a \<^verbatim>\<open>ValueError\<close> when the sizes differ), calls the
  symmetric solve with \<open>A = jaco(x0).T\<close> and negates the solution; the bare
  \<^verbatim>\<open>except:\<close> takes the negated least-squares solution instead. \<open>n\<close> is the
  number of entries of the shape that the branch reshapes to: \<open>nvar + nineq\<close> with
  inequalities, \<open>nvar * nineq * 1\<close> without.
\<close>

definition soc_direction :: "linalg \<Rightarrow> nat \<Rightarrow> mat \<Rightarrow> vec \<Rightarrow> error + vec" where
  "soc_direction LA n A c_new =
     try_except
       (if length c_new = n then map_sum id vneg (sym_solve LA A c_new) else Inl ValueError)
       (Inr (vneg (lstsq LA A c_new)))"

text \<open>The second-order correction with inequalities, entered when the Armijo test fails at
  the full trial step. \<open>soc_ineq_accept\<close> is what follows the computation of \<open>dz_p\<close>
  (lines 957 to 963): the two tests and the step length \<open>alpha_corr\<close>. The result is the
  accepted pair \<open>(alpha_corr, dz_p)\<close>, or \<open>None\<close> when \<^verbatim>\<open>correction\<close> stays false.\<close>

definition soc_ineq_accept ::
  "ipm \<Rightarrow> problem \<Rightarrow> real \<Rightarrow> real \<Rightarrow> vec \<Rightarrow> vec \<Rightarrow> vec \<Rightarrow> vec \<Rightarrow> real \<Rightarrow> real \<Rightarrow> real \<Rightarrow> vec
     \<Rightarrow> (real \<times> vec) option result" where
  "soc_ineq_accept self P mu_dev nu_dev x0 s0 dx ds a phi0 dphi0 dz_p =
    (let D = nvar self
     in if phi self P mu_dev nu_dev (vadd (vadd x0 (smul a dx)) (take D dz_p))
             (vadd (vadd s0 (smul a ds)) (drop D dz_p)) \<le> phi0 + a * eta self * dphi0
        then
          bnd (lift_opt (step self s0 (vadd (smul a ds) (drop D dz_p))))
            (\<lambda>alpha_corr.
              if phi self P mu_dev nu_dev
                   (vadd x0 (smul alpha_corr (vadd (smul a dx) (take D dz_p))))
                   (vadd s0 (smul alpha_corr (vadd (smul a ds) (drop D dz_p))))
                 \<le> phi0 + alpha_corr * eta self *
                     dphi self P mu_dev nu_dev x0 s0 (vadd (smul a (dx @ ds)) dz_p)
              then ret (Some (alpha_corr, dz_p))
              else ret None)
        else ret None)"

definition soc_ineq ::
  "ipm \<Rightarrow> problem \<Rightarrow> linalg \<Rightarrow> real \<Rightarrow> real \<Rightarrow> vec \<Rightarrow> vec \<Rightarrow> vec \<Rightarrow> vec \<Rightarrow> real \<Rightarrow> real \<Rightarrow> real
     \<Rightarrow> (real \<times> vec) option result" where
  "soc_ineq self P LA mu_dev nu_dev x0 s0 dx ds a phi0 dphi0 =
    (let D = nvar self; N = nineq self;
         c_old = con self P x0 s0;
         c_new = con self P (vadd x0 (smul a dx)) (vadd s0 (smul a ds))
     in if sum_abs c_new > sum_abs c_old then
          bnd (lift_err (soc_direction LA (D + N) (transpose (jaco self P x0)) c_new))
            (soc_ineq_accept self P mu_dev nu_dev x0 s0 dx ds a phi0 dphi0)
        else ret None)"

text \<open>The second-order correction without inequalities; it is tried only when equality
  constraints are present, and accepts with \<open>alpha_corr = 1\<close> (lines 990 to 995).\<close>

definition soc_eq_accept ::
  "ipm \<Rightarrow> problem \<Rightarrow> real \<Rightarrow> real \<Rightarrow> vec \<Rightarrow> vec \<Rightarrow> vec \<Rightarrow> real \<Rightarrow> real \<Rightarrow> real \<Rightarrow> vec
     \<Rightarrow> (real \<times> vec) option result" where
  "soc_eq_accept self P mu_dev nu_dev x0 s0 dx a phi0 dphi0 dz_p =
    (if phi self P mu_dev nu_dev (vadd (vadd x0 (smul a dx)) dz_p) s0
          \<le> phi0 + a * eta self * dphi0
     then ret (Some (1, dz_p))
     else ret None)"

definition soc_eq ::
  "ipm \<Rightarrow> problem \<Rightarrow> linalg \<Rightarrow> real \<Rightarrow> real \<Rightarrow> vec \<Rightarrow> vec \<Rightarrow> vec \<Rightarrow> real \<Rightarrow> real \<Rightarrow> real
     \<Rightarrow> (real \<times> vec) option result" where
  "soc_eq self P LA mu_dev nu_dev x0 s0 dx a phi0 dphi0 =
    (if neq self \<noteq> 0 then
       (let c_old = con self P x0 s0;
            c_new = con self P (vadd x0 (smul a dx)) s0
        in if sum_abs c_new > sum_abs c_old then
             bnd (lift_err (soc_direction LA (nvar self * nineq self * 1)
                              (transpose (jaco self P x0)) c_new))
               (soc_eq_accept self P mu_dev nu_dev x0 s0 dx a phi0 dphi0)
           else ret None)
     else ret None)"

text \<open>The Armijo test at the step length \<open>a\<close>:
  \<^verbatim>\<open>phi(x0 + a*dx, s0 + a*ds) > phi0 + a*eta*dphi0\<close> (without inequalities the slack
  argument is \<open>s0\<close>).\<close>

definition armijo_fails ::
  "ipm \<Rightarrow> problem \<Rightarrow> real \<Rightarrow> real \<Rightarrow> vec \<Rightarrow> vec \<Rightarrow> vec \<Rightarrow> real \<Rightarrow> bool" where
  "armijo_fails self P mu_dev nu_dev x0 s0 dz a =
    (let D = nvar self; N = nineq self;
         dx = take D dz;
         ds = slice dz D (D + N);
         phi0 = phi self P mu_dev nu_dev x0 s0;
         dphi0 = dphi self P mu_dev nu_dev x0 s0 (take (D + N) dz)
     in phi self P mu_dev nu_dev (vadd x0 (smul a dx))
          (if N \<noteq> 0 then vadd s0 (smul a ds) else s0)
        > phi0 + a * eta self * dphi0)"

text \<open>After the correction attempt: an accepted correction keeps the step lengths;
  \<^verbatim>\<open>if not correction:\<close> both are multiplied by \<open>tau\<close> and the backtracking loop
  runs (lines 964 to 970 and 996 to 1002).\<close>

definition search_backtrack ::
  "ipm \<Rightarrow> problem \<Rightarrow> real \<Rightarrow> real \<Rightarrow> vec \<Rightarrow> vec \<Rightarrow> vec \<Rightarrow> real \<Rightarrow> real \<Rightarrow> (real \<times> vec) option
     \<Rightarrow> ((real \<times> vec) option \<times> real \<times> real) result" where
  "search_backtrack self P mu_dev nu_dev x0 s0 dz alpha_smax al0 corr =
    (case corr of
       Some c \<Rightarrow> ret (Some c, alpha_smax, al0)
     | None \<Rightarrow>
         bnd (lift_opt (backtrack (armijo_fails self P mu_dev nu_dev x0 s0 dz)
                          (tau self) (alpha_smax * tau self) (al0 * tau self)))
           (\<lambda>(a, al). ret (None, a, al)))"

text \<open>The first half of \<^verbatim>\<open>search\<close>: it settles the accepted correction (if any) and
  the final \<open>alpha_smax\<close> and \<open>alpha_lmax\<close>. Without any constraint \<open>alpha_lmax\<close> is set
  to zero.\<close>

definition search_lengths ::
  "ipm \<Rightarrow> problem \<Rightarrow> linalg \<Rightarrow> real \<Rightarrow> real \<Rightarrow> vec \<Rightarrow> vec \<Rightarrow> vec \<Rightarrow> real \<Rightarrow> real
     \<Rightarrow> ((real \<times> vec) option \<times> real \<times> real) result" where
  "search_lengths self P LA mu_dev nu_dev x0 s0 dz alpha_smax alpha_lmax =
    (let D = nvar self; M = neq self; N = nineq self;
         dx = take D dz;
         ds = slice dz D (D + N);
         al0 = (if M \<noteq> 0 \<or> N \<noteq> 0 then alpha_lmax else 0);
         phi0 = phi self P mu_dev nu_dev x0 s0;
         dphi0 = dphi self P mu_dev nu_dev x0 s0 (take (D + N) dz)
     in if armijo_fails self P mu_dev nu_dev x0 s0 dz alpha_smax then
          bnd (if N \<noteq> 0
               then soc_ineq self P LA mu_dev nu_dev x0 s0 dx ds alpha_smax phi0 dphi0
               else soc_eq self P LA mu_dev nu_dev x0 s0 dx alpha_smax phi0 dphi0)
            (search_backtrack self P mu_dev nu_dev x0 s0 dz alpha_smax al0)
        else ret (None, alpha_smax, al0))"

text \<open>The end of \<^verbatim>\<open>search\<close> (lines 971 to 974 and 1003 to 1012): the new
  \<open>(x, s, lda)\<close> from the accepted correction (if any) and the final step lengths.
  Without any constraint \<open>lda\<close> is copied.\<close>

definition search_result ::
  "ipm \<Rightarrow> vec \<Rightarrow> vec \<Rightarrow> vec \<Rightarrow> vec \<Rightarrow> (real \<times> vec) option \<times> real \<times> real
     \<Rightarrow> (vec \<times> vec \<times> vec) result" where
  "search_result self x0 s0 lda0 dz =
    (\<lambda>(corr, a, al).
       let D = nvar self; M = neq self; N = nineq self;
           dx = take D dz;
           ds = slice dz D (D + N);
           dl = drop (D + N) dz;
           s = (if N \<noteq> 0 then
                  (case corr of
                     Some (alpha_corr, dz_p) \<Rightarrow>
                       vadd s0 (smul alpha_corr (vadd (smul a ds) (drop D dz_p)))
                   | None \<Rightarrow> vadd s0 (smul a ds))
                else s0);
           x = (case corr of
                  Some (alpha_corr, dz_p) \<Rightarrow>
                    vadd x0 (smul alpha_corr (vadd (smul a dx) (take D dz_p)))
                | None \<Rightarrow> vadd x0 (smul a dx));
           lda = (if M \<noteq> 0 \<or> N \<noteq> 0 then vadd lda0 (smul al dl) else lda0)
       in ret (x, s, lda))"

text \<open>\<^verbatim>\<open>search\<close> returns the new \<open>(x, s, lda)\<close>.\<close>

definition search ::
  "ipm \<Rightarrow> problem \<Rightarrow> linalg \<Rightarrow> real \<Rightarrow> real \<Rightarrow> vec \<Rightarrow> vec \<Rightarrow> vec \<Rightarrow> vec \<Rightarrow> real \<Rightarrow> real
     \<Rightarrow> (vec \<times> vec \<times> vec) result" where
  "search self P LA mu_dev nu_dev x0 s0 lda0 dz alpha_smax alpha_lmax =
     bnd (search_lengths self P LA mu_dev nu_dev x0 s0 dz alpha_smax alpha_lmax)
       (search_result self x0 s0 lda0 dz)"

section \<open>The driver: \<^verbatim>\<open>IPM.solve\<close>\<close>

text \<open>
  The local variables of \<^verbatim>\<open>solve\<close> and the attributes it mutates. \<open>st_mu_dev\<close> and
  \<open>st_nu_dev\<close> are the shared variables that the compiled expressions read. The loop
  variables \<^verbatim>\<open>outer\<close> and \<^verbatim>\<open>inner\<close> are unbound (\<open>None\<close>) until their
  \<^verbatim>\<open>for\<close> statement assigns them. The storage, \<open>x_old\<close> and \<open>g\<close> are read only in
  L-BFGS mode.
\<close>

record state =
  st_x :: vec
  st_s :: vec
  st_lda :: vec
  st_mu_host :: real
  st_mu_dev :: real
  st_nu_host :: real
  st_nu_dev :: real
  st_delta :: real
  st_kkt :: "kkt_block list"
  st_store :: lbfgs_store
  st_x_old :: vec
  st_g :: vec
  st_iter_count :: nat
  st_outer :: "nat option"
  st_inner :: "nat option"

text \<open>\<^verbatim>\<open>init_lambda\<close>, and the clipping of its negative inequality multipliers to
  \<open>Ktol\<close> in \<^verbatim>\<open>solve\<close>.\<close>

definition init_lambda :: "ipm \<Rightarrow> problem \<Rightarrow> linalg \<Rightarrow> vec \<Rightarrow> vec" where
  "init_lambda self P LA x =
    (let J = (if neq self \<noteq> 0 \<and> nineq self \<noteq> 0 then map2 (@) (dce P x) (dci P x)
              else if neq self \<noteq> 0 then dce P x else dci P x)
     in mv (pinv LA J) (gradf P x))"

definition clip_lambda :: "ipm \<Rightarrow> vec \<Rightarrow> vec" where
  "clip_lambda self l =
    (let clip = map (\<lambda>v. if v < 0 then Ktol self else v)
     in if nineq self \<noteq> 0 \<and> neq self \<noteq> 0 then take (neq self) l @ clip (drop (neq self) l)
        else if nineq self \<noteq> 0 then clip l
        else l)"

text \<open>The barrier update at the end of an outer iteration (lines 1160 to 1166).\<close>

definition mu_next :: "ipm \<Rightarrow> vec \<Rightarrow> vec \<Rightarrow> real" where
  "mu_next self s lda =
    (let li = drop (neq self) lda;
         xi = real (nineq self) * Min (set (vmul s li)) / (dot s li + eps self);
         m = 1 / 10 * (min (5 / 100 * (1 - xi) / (xi + eps self)) 2) ^ 3 * dot s li
               / real (nineq self)
     in if m < 0 then 0 else m)"

definition mu_update :: "ipm \<Rightarrow> state \<Rightarrow> state" where
  "mu_update self st =
    (if nineq self \<noteq> 0
     then (let m = mu_next self (st_s st) (st_lda st)
           in st \<lparr> st_mu_host := m, st_mu_dev := m \<rparr>)
     else st)"

text \<open>The direction of one inner iteration: the L-BFGS update and direction, or the
  regularized exact Newton system. The result carries the updated storage or \<open>delta\<close>.\<close>

definition direction :: "ipm \<Rightarrow> problem \<Rightarrow> linalg \<Rightarrow> nat \<Rightarrow> nat \<Rightarrow> state \<Rightarrow> (state \<times> vec) result" where
  "direction self P LA outer inner st =
    (if lbfgs self \<noteq> 0 then
       bnd (if inner > 0 \<or> outer > 0 then
              (let g_old = vneg (grad self P (st_mu_dev st) (st_x_old st) (st_s st) (st_lda st));
                   g_new = vneg (grad self P (st_mu_dev st) (st_x st) (st_s st) (st_lda st))
               in bnd (lift_err (lbfgs_update self (st_x_old st) (st_x st) g_old g_new
                                   (st_store st)))
                    (\<lambda>lb. ret (st \<lparr> st_store := lb, st_x_old := st_x st, st_g := g_new \<rparr>)))
            else ret st)
         (\<lambda>st1. bnd (lift_err (lbfgs_dir LA (st_x st1) (st_s st1) (st_lda st1) (st_g st1)
                                  (st_store st1)))
                   (\<lambda>dz. ret (st1, dz)))
     else
       (let g = vneg (grad self P (st_mu_dev st) (st_x st) (st_s st) (st_lda st))
        in bnd (lift_opt (reghess self LA (st_mu_host st) (st_delta st)
                            (hess P (st_x st) (st_s st) (st_lda st))))
             (\<lambda>(Hc, d). bnd (lift_err (sym_solve LA Hc g))
                           (\<lambda>dz. ret (st \<lparr> st_g := g, st_delta := d \<rparr>, dz)))))"

text \<open>The merit penalty update (lines 1125 to 1129).\<close>

definition nu_update :: "ipm \<Rightarrow> problem \<Rightarrow> vec \<Rightarrow> state \<Rightarrow> state" where
  "nu_update self P dz st =
    (if neq self \<noteq> 0 \<or> nineq self \<noteq> 0 then
       (let nu_thres = dot (barrier_cost_grad self P (st_mu_dev st) (st_x st) (st_s st))
                           (take (nvar self + nineq self) dz)
                       / (1 - rho self) / sum_abs (con self P (st_x st) (st_s st))
        in if st_nu_host st < nu_thres
           then st \<lparr> st_nu_host := nu_thres, st_nu_dev := nu_thres \<rparr>
           else st)
     else st)"

text \<open>The body of the inner loop after its convergence test.\<close>

definition inner_body :: "ipm \<Rightarrow> problem \<Rightarrow> linalg \<Rightarrow> nat \<Rightarrow> nat \<Rightarrow> state \<Rightarrow> state result" where
  "inner_body self P LA outer inner st =
    bnd (direction self P LA outer inner st)
      (\<lambda>(st1, dz0).
        let D = nvar self; M = neq self; N = nineq self;
            dz = (if M \<noteq> 0 \<or> N \<noteq> 0 then take (D + N) dz0 @ vneg (drop (D + N) dz0) else dz0);
            st2 = nu_update self P dz st1
        in bnd (if N \<noteq> 0 then
                  bnd (lift_opt (step self (st_s st2) (slice dz D (D + N))))
                    (\<lambda>alpha_smax.
                      bnd (lift_opt (step self (drop M (st_lda st2)) (drop (D + N + M) dz)))
                        (\<lambda>alpha_lmax.
                          search self P LA (st_mu_dev st2) (st_nu_dev st2) (st_x st2) (st_s st2)
                            (st_lda st2) dz alpha_smax alpha_lmax))
                else search self P LA (st_mu_dev st2) (st_nu_dev st2) (st_x st2) (st_s st2)
                       (st_lda st2) dz 1 1)
             (\<lambda>(x, s, lda).
               ret (st2 \<lparr> st_x := x, st_s := s, st_lda := lda,
                           st_kkt := KKT self P (st_mu_dev st2) x s lda,
                           st_iter_count := st_iter_count st2 + 1 \<rparr>)))"

text \<open>\<^verbatim>\<open>for inner in range(self.miter)\<close>, with \<open>k\<close> iterations left.\<close>

fun inner_loop :: "ipm \<Rightarrow> problem \<Rightarrow> linalg \<Rightarrow> nat \<Rightarrow> nat \<Rightarrow> state \<Rightarrow> state result" where
  "inner_loop self P LA outer 0 st = ret st"
| "inner_loop self P LA outer (Suc k) st =
    (let st1 = st \<lparr> st_inner := Some (miter self - Suc k) \<rparr>;
         muTol = max (Ktol self) (st_mu_host st1)
     in if kkt_within muTol (st_kkt st1) then ret st1
        else bnd (inner_body self P LA outer (miter self - Suc k) st1)
               (inner_loop self P LA outer k))"

text \<open>\<^verbatim>\<open>for outer in range(self.niter)\<close>, with \<open>k\<close> iterations left.\<close>

fun outer_loop :: "ipm \<Rightarrow> problem \<Rightarrow> linalg \<Rightarrow> nat \<Rightarrow> state \<Rightarrow> state result" where
  "outer_loop self P LA 0 st = ret st"
| "outer_loop self P LA (Suc k) st =
    (let st1 = st \<lparr> st_outer := Some (niter self - Suc k) \<rparr>
     in if kkt_within (Ktol self) (st_kkt st1) then ret st1
        else bnd (inner_loop self P LA (niter self - Suc k) (miter self) st1)
               (\<lambda>st2. if niter self - Suc k \<ge> niter self - 1 then ret st2
                      else outer_loop self P LA k (mu_update self st2)))"

text \<open>
  The summary message after the loops. Only its reads of \<^verbatim>\<open>outer\<close> and
  \<^verbatim>\<open>inner\<close> are modelled: the non-converged branch assigns both, the converged branch
  reads what the loops left, and reading an unbound local raises.
\<close>

definition report :: "ipm \<Rightarrow> state \<Rightarrow> error + unit" where
  "report self st =
    (if verbosity self \<ge> 0 then
       (let conv = kkt_within (Ktol self) (st_kkt st);
            outer = (if conv then st_outer st else Some (niter self));
            inner = (if conv then st_inner st else Some 0)
        in if neq self \<noteq> 0 \<or> nineq self \<noteq> 0 then
             (case outer of
                None \<Rightarrow> Inl UnboundLocalError
              | Some _ \<Rightarrow> (case inner of None \<Rightarrow> Inl UnboundLocalError | Some _ \<Rightarrow> Inr ()))
           else Inr ())
     else Inr ())"

text \<open>
  The state before the loops, for the first \<^verbatim>\<open>solve\<close> of a compiled object (the
  shared variables hold \<open>mu\<close> and \<open>nu\<close> as compiled). \<open>x0\<close>, \<open>s0\<close>, \<open>lda0\<close> are the
  attributes after the arguments are merged in; \<^verbatim>\<open>self.nvar\<close> becomes the size of
  \<open>x0\<close>.
\<close>

definition solve_init ::
  "ipm \<Rightarrow> problem \<Rightarrow> linalg \<Rightarrow> vec option \<Rightarrow> vec option \<Rightarrow> vec option \<Rightarrow> (ipm \<times> state) result" where
  "solve_init self0 P LA x0 s0 lda0 =
    (case x0 of
       None \<Rightarrow> raise AssertionError
     | Some x \<Rightarrow>
         if length x = 0 then raise AssertionError
         else
           (let self = self0 \<lparr> nvar := length x \<rparr>;
                s = (if nineq self \<noteq> 0
                     then (case s0 of None \<Rightarrow> init_slack self P x | Some v \<Rightarrow> v)
                     else []);
                m = (if nineq self \<noteq> 0 then mu self else Ktol self);
                lda = (if neq self \<noteq> 0 \<or> nineq self \<noteq> 0
                       then (case lda0 of
                               None \<Rightarrow> clip_lambda self (init_lambda self P LA x)
                             | Some v \<Rightarrow> v)
                       else []);
                st = \<lparr> st_x = x, st_s = s, st_lda = lda, st_mu_host = m, st_mu_dev = m,
                       st_nu_host = nu self, st_nu_dev = nu self, st_delta = 0,
                       st_kkt = KKT self P m x s lda,
                       st_store = \<lparr> lb_zeta = 0, lb_S = [], lb_Y = [], lb_SS = [], lb_L = [],
                                     lb_D = [], lb_fail = 0 \<rparr>,
                       st_x_old = [], st_g = [], st_iter_count = 0, st_outer = None,
                       st_inner = None \<rparr>
            in if lbfgs self \<noteq> 0 then
                 bnd (lift_err (lbfgs_init self))
                   (\<lambda>lb. ret (self, st \<lparr> st_store := lb, st_x_old := x,
                                          st_g := vneg (grad self P m x s lda) \<rparr>))
               else ret (self, st)))"

text \<open>The loops, ending in the state that \<^verbatim>\<open>solve\<close> leaves on the object.\<close>

definition solve_run ::
  "ipm \<Rightarrow> problem \<Rightarrow> linalg \<Rightarrow> vec option \<Rightarrow> vec option \<Rightarrow> vec option \<Rightarrow> state result" where
  "solve_run self0 P LA x0 s0 lda0 =
    bnd (solve_init self0 P LA x0 s0 lda0)
      (\<lambda>(self, st). outer_loop self P LA (niter self) st)"

definition solve ::
  "ipm \<Rightarrow> problem \<Rightarrow> linalg \<Rightarrow> vec option \<Rightarrow> vec option \<Rightarrow> vec option
     \<Rightarrow> (vec \<times> vec \<times> vec \<times> real \<times> kkt_block list) result" where
  "solve self0 P LA x0 s0 lda0 =
    bnd (solve_run self0 P LA x0 s0 lda0)
      (\<lambda>st. bnd (lift_err (report self0 st))
               (\<lambda>_. ret (st_x st, st_s st, st_lda st, cost P (st_x st), st_kkt st)))"

text \<open>Minimise \<open>x\<^sup>2\<close> without constraints (D = 1, M = N = 0), and the state of its solve
  at the iterate \<open>x\<close> after \<open>n\<close> inner iterations.\<close>

definition quad_problem :: problem where
  "quad_problem = \<lparr> cost = (\<lambda>x. x ! 0 * x ! 0), df = (\<lambda>x. [2 * x ! 0]),
     gradf = (\<lambda>x. [2 * x ! 0]), ce = (\<lambda>x. []), dce = (\<lambda>x. [[]]),
     ci = (\<lambda>x. []), dci = (\<lambda>x. [[]]), hess = (\<lambda>x s lda. [[2]]) \<rparr>"

definition quad_state :: "vec \<Rightarrow> nat \<Rightarrow> nat option \<Rightarrow> nat option \<Rightarrow> state" where
  "quad_state x n outer inner =
     \<lparr> st_x = x, st_s = [], st_lda = [], st_mu_host = 1 / 10 ^ 4, st_mu_dev = 1 / 10 ^ 4,
       st_nu_host = 10, st_nu_dev = 10, st_delta = 0,
       st_kkt = [Arr [2 * x ! 0], Scalar 0, Scalar 0, Scalar 0],
       st_store = \<lparr> lb_zeta = 0, lb_S = [], lb_Y = [], lb_SS = [], lb_L = [], lb_D = [],
                    lb_fail = 0 \<rparr>,
       st_x_old = [], st_g = (if n = 0 then [] else [- 2]), st_iter_count = n,
       st_outer = outer, st_inner = inner \<rparr>"

text \<open>Minimise \<open>x\<^sup>2\<close> subject to \<open>0 \<le> x \<le> 10\<close> (D = 1, M = 0, N = 2).\<close>

definition box_problem :: problem where
  "box_problem = \<lparr> cost = (\<lambda>x. x ! 0 * x ! 0), df = (\<lambda>x. [2 * x ! 0]),
     gradf = (\<lambda>x. [2 * x ! 0]), ce = (\<lambda>x. []), dce = (\<lambda>x. [[]]),
     ci = (\<lambda>x. [x ! 0, 10 - x ! 0]), dci = (\<lambda>x. [[1, - 1]]),
     hess = (\<lambda>x s lda. [[2, 0, 0, 1, - 1],
                          [0, lda ! 0 / (s ! 0 + 1 / 2 ^ 23), 0, - 1, 0],
                          [0, 0, lda ! 1 / (s ! 1 + 1 / 2 ^ 23), 0, - 1],
                          [1, - 1, 0, 0, 0],
                          [- 1, 0, - 1, 0, 0]]) \<rparr>"

text \<open>Minimise \<open>(x - 265)\<^sup>2 / 2\<close> subject to \<open>x \<ge> 0\<close> (D = 1, M = 0, N = 1), with its
  compiled KKT matrix. The minimiser is \<open>x = 265\<close>, where the constraint is inactive.\<close>

definition shift_problem :: problem where
  "shift_problem = \<lparr> cost = (\<lambda>x. (x ! 0 - 265) * (x ! 0 - 265) / 2), df = (\<lambda>x. [x ! 0 - 265]),
     gradf = (\<lambda>x. [x ! 0 - 265]), ce = (\<lambda>x. []), dce = (\<lambda>x. [[]]),
     ci = (\<lambda>x. [x ! 0]), dci = (\<lambda>x. [[1]]),
     hess = (\<lambda>x s lda. [[1, 0, 1], [0, lda ! 0 / (s ! 0 + 1 / 2 ^ 23), - 1], [1, - 1, 0]]) \<rparr>"

text \<open>
  The kernel on the matrices of this problem. For a matrix
  \<open>[[a, 0, 1], [0, c, - 1], [1, - 1, 0]]\<close> with \<open>a \<sqdot> c = 1\<close> the eigenvalues are \<open>- 1\<close>,
  \<open>1\<close> and \<open>a + c\<close>; a system with a square matrix of order three is solved by Cramer's
  rule and is singular when the determinant is zero; the least-squares solution of the
  single equation \<open>A[0] \<sqdot> z = b[0]\<close> of minimum norm is \<open>(b[0] / (A[0] \<sqdot> A[0])) A[0]\<close>. The
  other routines are those of the kernel on diagonal matrices.
\<close>

definition det3 :: "mat \<Rightarrow> real" where
  "det3 A = A ! 0 ! 0 * (A ! 1 ! 1 * A ! 2 ! 2 - A ! 1 ! 2 * A ! 2 ! 1)
          - A ! 0 ! 1 * (A ! 1 ! 0 * A ! 2 ! 2 - A ! 1 ! 2 * A ! 2 ! 0)
          + A ! 0 ! 2 * (A ! 1 ! 0 * A ! 2 ! 1 - A ! 1 ! 1 * A ! 2 ! 0)"

definition set_col :: "mat \<Rightarrow> nat \<Rightarrow> vec \<Rightarrow> mat" where
  "set_col A j b = map2 (\<lambda>row v. row[j := v]) A b"

definition kkt3_linalg :: linalg where
  "kkt3_linalg = diag_linalg \<lparr>
     eigh := (\<lambda>A. sort [- 1, 1, A ! 0 ! 0 + A ! 1 ! 1]),
     lstsq := (\<lambda>A b. smul (b ! 0 / dot (A ! 0) (A ! 0)) (A ! 0)),
     sym_solve := (\<lambda>A b. if det3 A = 0 then Inl LinAlgError
                         else Inr [det3 (set_col A 0 b) / det3 A, det3 (set_col A 1 b) / det3 A,
                                   det3 (set_col A 2 b) / det3 A]) \<rparr>"

text \<open>The constructor's arguments with a budget of one outer and one inner iteration
  (\<^verbatim>\<open>niter=1, miter=1\<close>), and the state of \<^verbatim>\<open>solve\<close> before the loops for
  \<open>x0 = [145]\<close>, \<open>s0 = [1 - eps]\<close>, \<open>lda0 = [1]\<close>.\<close>

definition one_iteration :: kwargs where
  "one_iteration = defaults \<lparr> k_miter := 1, k_niter := 1 \<rparr>"

definition shift_state :: state where
  "shift_state =
     \<lparr> st_x = [145], st_s = [1 - 1 / 2 ^ 23], st_lda = [1], st_mu_host = 1 / 5, st_mu_dev = 1 / 5,
       st_nu_host = 10, st_nu_dev = 10, st_delta = 0,
       st_kkt = [Arr [- 121], Arr [8388607 / 10485760], Scalar 0, Arr [1207959553 / 8388608]],
       st_store = \<lparr> lb_zeta = 0, lb_S = [], lb_Y = [], lb_SS = [], lb_L = [], lb_D = [],
                    lb_fail = 0 \<rparr>,
       st_x_old = [], st_g = [], st_iter_count = 0, st_outer = None, st_inner = None \<rparr>"

text \<open>The state after the first inner iteration from there, when the multiplier step
  length is \<open>al\<close>: the full step is taken in \<open>x\<close> and \<open>s\<close>, and the merit penalty has been
  raised.\<close>

definition shift_next :: "real \<Rightarrow> nat option \<Rightarrow> nat option \<Rightarrow> state" where
  "shift_next al out inn =
     \<lparr> st_x = [11165237243 / 83886080], st_s = [11165237243 / 83886080],
       st_lda = [1 - al * (11148460037 / 83886080)], st_mu_host = 1 / 5, st_mu_dev = 1 / 5,
       st_nu_host = 587865263027 / 54358179885, st_nu_dev = 587865263027 / 54358179885,
       st_delta = 0,
       st_kkt = KKT (init one_iteration 1 0 1) shift_problem (1 / 5) [11165237243 / 83886080]
                  [11165237243 / 83886080] [1 - al * (11148460037 / 83886080)],
       st_store = \<lparr> lb_zeta = 0, lb_S = [], lb_Y = [], lb_SS = [], lb_L = [], lb_D = [],
                    lb_fail = 0 \<rparr>,
       st_x_old = [], st_g = [121, - (4 / 5), - (1207959553 / 8388608)], st_iter_count = 1,
       st_outer = out, st_inner = inn \<rparr>"

section \<open>The barrier update as specified\<close>

text \<open>Section 4.10 in its own words: \<open>xi = N min(s\<^sub>i lda\<^sub>M\<^sub>+\<^sub>i) / (s\<^sup>T lda[M:] + eps)\<close> and
  \<open>mu = 0.1 min(0.05 (1 - xi) / (xi + eps), 2)\<^sup>3 (s\<^sup>T lda[M:] / N)\<close>, clamped below at 0.\<close>

definition xi_as_specified :: "ipm \<Rightarrow> vec \<Rightarrow> vec \<Rightarrow> real" where
  "xi_as_specified self s lda =
     real (nineq self) * Min (set (vmul s (drop (neq self) lda)))
       / (dot s (drop (neq self) lda) + eps self)"

definition mu_as_specified :: "ipm \<Rightarrow> vec \<Rightarrow> vec \<Rightarrow> real" where
  "mu_as_specified self s lda =
     max 0 (1 / 10 *
       (min (5 / 100 * (1 - xi_as_specified self s lda) / (xi_as_specified self s lda + eps self)) 2) ^ 3 *
       (dot s (drop (neq self) lda) / real (nineq self)))"

section \<open>Predicates of the claims\<close>

text \<open>An iterate is interior when every slack and every inequality multiplier is strictly
  positive; \<open>lda\<close> has at most \<open>M + N\<close> entries, so without inequalities it has no
  inequality part.\<close>

definition interior :: "ipm \<Rightarrow> state \<Rightarrow> bool" where
  "interior self st \<longleftrightarrow>
     (\<forall>v \<in> set (st_s st). 0 < v) \<and> (\<forall>v \<in> set (drop (neq self) (st_lda st)). 0 < v) \<and>
     length (st_lda st) \<le> neq self + nineq self"

text \<open>A computation that does not raise: it returns, or it does not end.\<close>

definition no_raise :: "'a result \<Rightarrow> bool" where
  "no_raise m \<longleftrightarrow> (\<forall>e. m \<noteq> Some (Inl e))"

section \<open>Properties of the fraction-to-the-boundary step\<close>

lemma GOLD_bounds: "3 / 2 < GOLD" "GOLD < 2"
proof -
  have "2 < sqrt 5" by (rule real_less_rsqrt) simp
  then show "3 / 2 < GOLD" by (simp add: GOLD_def)
  have "sqrt 5 < 3" by (rule real_less_lsqrt) simp_all
  then show "GOLD < 2" by (simp add: GOLD_def)
qed

lemma any_lt_iff: "any_lt self x dx t \<longleftrightarrow> \<not> all_ge self x dx t"
  unfolding any_lt_def all_ge_def list_all_iff list_ex_iff
  by (fastforce simp: not_le)

lemma all_ge_zero:
  assumes "\<forall>v \<in> set x. 0 < v" and "0 \<le> tau self"
  shows "all_ge self x dx 0"
  unfolding all_ge_def list_all_iff
proof (clarify)
  fix xi di assume "(xi, di) \<in> set (zip x dx)"
  then have "0 < xi" using assms(1) by (auto dest: set_zip_leftD)
  then have "0 \<le> tau self * xi" using assms(2) by simp
  then show "(1 - tau self) * xi \<le> xi + 0 * di" by (simp add: algebra_simps)
qed

lemma all_ge_down:
  assumes pos: "\<forall>v \<in> set x. 0 < v" and tau: "0 \<le> tau self"
    and ok: "all_ge self x dx t" and le: "0 \<le> t'" "t' \<le> t"
  shows "all_ge self x dx t'"
  unfolding all_ge_def list_all_iff
proof (clarify)
  fix xi di assume mem: "(xi, di) \<in> set (zip x dx)"
  then have xi: "0 < xi" using pos by (auto dest: set_zip_leftD)
  from ok mem have h: "(1 - tau self) * xi \<le> xi + t * di"
    by (auto simp: all_ge_def list_all_iff)
  have tx: "0 \<le> tau self * xi" using tau xi by simp
  show "(1 - tau self) * xi \<le> xi + t' * di"
  proof (cases "0 \<le> di")
    case True
    then have "0 \<le> t' * di" using le by simp
    then show ?thesis using tx by (simp add: algebra_simps)
  next
    case False
    then have "t * di \<le> t' * di" using le by (simp add: mult_right_mono_neg)
    then show ?thesis using h by simp
  qed
qed

lemma golden_cut:
  assumes "a < b"
  shows "b - a < 2 * ((b - a) / GOLD)" "3 * ((b - a) / GOLD) < 2 * b - 2 * a"
proof -
  have g: "0 < GOLD" using GOLD_bounds by linarith
  have w: "0 < b - a" using assms by simp
  have "(b - a) / 2 < (b - a) / GOLD"
    by (rule divide_strict_left_mono) (use GOLD_bounds g w in simp_all)
  then show "b - a < 2 * ((b - a) / GOLD)" by argo
  have "(b - a) / GOLD < (b - a) / (3 / 2)"
    by (rule divide_strict_left_mono) (use GOLD_bounds g w in simp_all)
  then show "3 * ((b - a) / GOLD) < 2 * b - 2 * a" by argo
qed

lemma step_loop_returns:
  assumes pos: "\<forall>v \<in> set x. 0 < v" and tau: "0 \<le> tau self" and tol: "0 < Xtol self"
  shows "b - a \<le> GOLD * Xtol self * 2 ^ n \<Longrightarrow> a < b \<Longrightarrow> 0 \<le> a \<Longrightarrow> b \<le> 1 \<Longrightarrow>
    all_ge self x dx a \<Longrightarrow> \<not> all_ge self x dx b \<Longrightarrow>
    c = b - (b - a) / GOLD \<Longrightarrow> d = a + (b - a) / GOLD \<Longrightarrow>
    \<exists>r b'. step_loop self x dx a b c d = Some r \<and> 0 \<le> r \<and> r \<le> 1 \<and> all_ge self x dx r \<and>
      \<not> all_ge self x dx b' \<and> r < b' \<and> b' - r \<le> GOLD * Xtol self"
proof (induction n arbitrary: a b c d)
  case 0
  then have "\<not> \<bar>b - a\<bar> > GOLD * Xtol self" by simp
  then have "step_loop self x dx a b c d = Some a"
    by (subst step_loop.simps) simp
  with 0 show ?case by (intro exI [of _ a] exI [of _ b]) simp
next
  case (Suc n)
  show ?case
  proof (cases "\<bar>b - a\<bar> > GOLD * Xtol self")
    case False
    then have "step_loop self x dx a b c d = Some a"
      by (subst step_loop.simps) simp
    with Suc.prems False show ?thesis by (intro exI [of _ a] exI [of _ b]) simp
  next
    case True
    note cut = golden_cut [OF \<open>a < b\<close>]
    have half: "b - a \<le> 2 * (GOLD * Xtol self * 2 ^ n)"
      using Suc.prems(1) by simp
    define k where "k = (b - a) / GOLD"
    have c: "c = b - k" and d: "d = a + k" using Suc.prems by (simp_all add: k_def)
    have k: "b - a < 2 * k" "3 * k < 2 * b - 2 * a" using cut by (simp_all add: k_def)
    consider (dfail_cfail) "any_lt self x dx d" "any_lt self x dx c"
      | (dfail_cok) "any_lt self x dx d" "\<not> any_lt self x dx c"
      | (dok) "\<not> any_lt self x dx d" by blast
    then show ?thesis
    proof cases
      case dfail_cfail
      have ca: "c > a" using c k \<open>a < b\<close> by linarith
      have unf: "step_loop self x dx a b c d =
          step_loop self x dx a c (c - (c - a) / GOLD) (a + (c - a) / GOLD)"
        using True dfail_cfail ca by (subst step_loop.simps) simp
      have "\<exists>r b'. step_loop self x dx a c (c - (c - a) / GOLD) (a + (c - a) / GOLD) = Some r \<and>
          0 \<le> r \<and> r \<le> 1 \<and> all_ge self x dx r \<and> \<not> all_ge self x dx b' \<and> r < b' \<and>
          b' - r \<le> GOLD * Xtol self"
      proof (rule Suc.IH)
        show "c - a \<le> GOLD * Xtol self * 2 ^ n" using half c k by linarith
        show "a < c" by (rule ca)
        show "0 \<le> a" by (rule Suc.prems)
        show "c \<le> 1" using c k Suc.prems(2,4) by linarith
        show "all_ge self x dx a" by (rule Suc.prems)
        show "\<not> all_ge self x dx c" using dfail_cfail(2) by (simp add: any_lt_iff)
      qed simp_all
      then show ?thesis by (simp only: unf)
    next
      case dfail_cok
      have ca: "c > a" using c k \<open>a < b\<close> by linarith
      have unf: "step_loop self x dx a b c d =
          step_loop self x dx c d (d - (d - c) / GOLD) (c + (d - c) / GOLD)"
        using True dfail_cok ca by (subst step_loop.simps) simp
      have "\<exists>r b'. step_loop self x dx c d (d - (d - c) / GOLD) (c + (d - c) / GOLD) = Some r \<and>
          0 \<le> r \<and> r \<le> 1 \<and> all_ge self x dx r \<and> \<not> all_ge self x dx b' \<and> r < b' \<and>
          b' - r \<le> GOLD * Xtol self"
      proof (rule Suc.IH)
        show "d - c \<le> GOLD * Xtol self * 2 ^ n" using half c d k by linarith
        show "c < d" using c d k by linarith
        show "0 \<le> c" using ca Suc.prems(3) by linarith
        show "d \<le> 1" using d k Suc.prems(2,4) by linarith
        show "all_ge self x dx c" using dfail_cok(2) by (simp add: any_lt_iff)
        show "\<not> all_ge self x dx d" using dfail_cok(1) by (simp add: any_lt_iff)
      qed simp_all
      then show ?thesis by (simp only: unf)
    next
      case dok
      have cd: "\<not> c > d" using c d k by linarith
      have unf: "step_loop self x dx a b c d =
          step_loop self x dx d b (b - (b - d) / GOLD) (d + (b - d) / GOLD)"
        using True dok cd by (subst step_loop.simps) simp
      have "\<exists>r b'. step_loop self x dx d b (b - (b - d) / GOLD) (d + (b - d) / GOLD) = Some r \<and>
          0 \<le> r \<and> r \<le> 1 \<and> all_ge self x dx r \<and> \<not> all_ge self x dx b' \<and> r < b' \<and>
          b' - r \<le> GOLD * Xtol self"
      proof (rule Suc.IH)
        show "b - d \<le> GOLD * Xtol self * 2 ^ n" using half d k by linarith
        show "d < b" using d k \<open>a < b\<close> by linarith
        show "0 \<le> d" using d k Suc.prems(2,3) by linarith
        show "b \<le> 1" by (rule Suc.prems)
        show "all_ge self x dx d" using dok by (simp add: any_lt_iff)
        show "\<not> all_ge self x dx b" by (rule Suc.prems)
      qed simp_all
      then show ?thesis by (simp only: unf)
    qed
  qed
qed

lemma all_ge_nth:
  assumes "length dp = length p"
  shows "all_ge self p dp t \<longleftrightarrow> (\<forall>i < length p. (1 - tau self) * p ! i \<le> p ! i + t * dp ! i)"
  using assms unfolding all_ge_def list_all_iff
  by (auto simp: set_zip) 

lemma step_returns:
  assumes pos: "\<forall>v \<in> set p. 0 < v" and tau: "0 \<le> tau self" and tol: "0 < Xtol self"
  shows "\<exists>alpha. step self p dp = Some alpha \<and> 0 \<le> alpha \<and> alpha \<le> 1 \<and>
    all_ge self p dp alpha \<and> (all_ge self p dp 1 \<longrightarrow> alpha = 1) \<and>
    (\<forall>t. 0 \<le> t \<and> t \<le> 1 \<and> all_ge self p dp t \<longrightarrow> t \<le> alpha + GOLD * Xtol self)"
proof (cases "all_ge self p dp 1")
  case True
  then have "step self p dp = Some 1" by (simp add: step_def)
  moreover have "0 \<le> GOLD * Xtol self" using GOLD_bounds tol by simp
  ultimately show ?thesis using True by auto
next
  case False
  have st: "step self p dp = step_loop self p dp 0 1 (1 - (1 - 0) / GOLD) (0 + (1 - 0) / GOLD)"
    using False by (simp add: step_def)
  have g: "1 < GOLD" using GOLD_bounds by linarith
  have "0 < GOLD * Xtol self" using g tol by simp
  then obtain n where n: "1 / (GOLD * Xtol self) < 2 ^ n"
    using real_arch_pow [of 2 "1 / (GOLD * Xtol self)"] by auto
  have w: "(1::real) - 0 \<le> GOLD * Xtol self * 2 ^ n"
    using n \<open>0 < GOLD * Xtol self\<close> by (simp add: field_simps)
  obtain r b' where r: "step_loop self p dp 0 1 (1 - (1 - 0) / GOLD) (0 + (1 - 0) / GOLD) = Some r"
    "0 \<le> r" "r \<le> 1" "all_ge self p dp r" "\<not> all_ge self p dp b'" "r < b'"
    "b' - r \<le> GOLD * Xtol self"
    using step_loop_returns [OF pos tau tol w _ _ _ all_ge_zero [OF pos tau] False refl refl]
    by auto
  have up: "t \<le> r + GOLD * Xtol self" if t: "0 \<le> t" "all_ge self p dp t" for t
  proof (rule ccontr)
    assume "\<not> t \<le> r + GOLD * Xtol self"
    then have "b' \<le> t" using r(7) by linarith
    moreover have "0 \<le> b'" using r(2,6) by linarith
    ultimately have "all_ge self p dp b'" using all_ge_down [OF pos tau t(2)] by blast
    then show False using r(5) by contradiction
  qed
  show ?thesis
    using r(1-4) False up unfolding st
    by (intro exI [of _ r]) auto
qed

text \<open>
  Claim C7. For a strictly positive vector \<open>p\<close> and any direction \<open>dp\<close> of the same
  length (with \<open>tau \<ge> 0\<close> and a positive tolerance \<open>Xtol\<close>, over the reals),
  \<^verbatim>\<open>step(p, dp)\<close> returns some \<open>alpha\<close> in \<open>[0, 1]\<close> with
  \<open>p + alpha * dp \<ge> (1 - tau) * p\<close> elementwise; it returns exactly 1 when the full
  step satisfies that bound; and no admissible step length in \<open>[0, 1]\<close> exceeds the
  returned one by more than \<open>GOLD * Xtol\<close>.
\<close>

theorem step_fraction_to_boundary:
  assumes pos: "\<forall>v \<in> set p. 0 < v" and len: "length dp = length p"
    and tau: "0 \<le> tau self" and tol: "0 < Xtol self"
  shows "\<exists>alpha. step self p dp = Some alpha \<and> 0 \<le> alpha \<and> alpha \<le> 1 \<and>
    (\<forall>i < length p. (1 - tau self) * p ! i \<le> p ! i + alpha * dp ! i) \<and>
    ((\<forall>i < length p. (1 - tau self) * p ! i \<le> p ! i + 1 * dp ! i) \<longrightarrow> alpha = 1) \<and>
    (\<forall>t. 0 \<le> t \<and> t \<le> 1 \<and> (\<forall>i < length p. (1 - tau self) * p ! i \<le> p ! i + t * dp ! i)
        \<longrightarrow> t \<le> alpha + GOLD * Xtol self)"
  using step_returns [OF pos tau tol, of dp] unfolding all_ge_nth [OF len] .

theorem step_fraction_to_boundary_witness:
  "\<exists>alpha. step (init defaults 1 0 1) [1] [- 2] = Some alpha \<and> 0 \<le> alpha \<and> alpha \<le> 1 \<and>
     1 / 200 \<le> 1 - 2 * alpha \<and> 199 / 400 \<le> alpha + GOLD / 2 ^ 23"
proof -
  have "\<exists>alpha. step (init defaults 1 0 1) [1] [- 2] = Some alpha \<and> 0 \<le> alpha \<and> alpha \<le> 1 \<and>
    (\<forall>i < length [1::real]. (1 - tau (init defaults 1 0 1)) * [1] ! i \<le> [1] ! i + alpha * [- 2] ! i) \<and>
    ((\<forall>i < length [1::real]. (1 - tau (init defaults 1 0 1)) * [1] ! i \<le> [1] ! i + 1 * [- 2] ! i)
       \<longrightarrow> alpha = 1) \<and>
    (\<forall>t. 0 \<le> t \<and> t \<le> 1 \<and>
        (\<forall>i < length [1::real]. (1 - tau (init defaults 1 0 1)) * [1] ! i \<le> [1] ! i + t * [- 2] ! i)
        \<longrightarrow> t \<le> alpha + GOLD * Xtol (init defaults 1 0 1))"
    by (rule step_fraction_to_boundary) (simp_all add: init_def defaults_def)
  then obtain alpha where a: "step (init defaults 1 0 1) [1] [- 2] = Some alpha" "0 \<le> alpha"
    "alpha \<le> 1" "(1 - tau (init defaults 1 0 1)) * 1 \<le> 1 + alpha * (- 2)"
    and up: "\<And>t. 0 \<le> t \<Longrightarrow> t \<le> 1 \<Longrightarrow> (1 - tau (init defaults 1 0 1)) * 1 \<le> 1 + t * (- 2)
        \<Longrightarrow> t \<le> alpha + GOLD * Xtol (init defaults 1 0 1)"
    by auto
  have "199 / 400 \<le> alpha + GOLD * Xtol (init defaults 1 0 1)"
    by (rule up) (simp_all add: init_def defaults_def)
  then show ?thesis using a by (intro exI [of _ alpha]) (simp add: init_def defaults_def)
qed

section \<open>The first-order conditions\<close>

lemma length_vsub [simp]: "length (vsub u v) = min (length u) (length v)"
  by (simp add: vsub_def)

lemma length_mv [simp]: "length (mv A v) = length A"
  by (simp add: mv_def)

lemma length_zeros [simp]: "length (zeros n) = n"
  by (simp add: zeros_def)

lemma vsub_zeros: "length u = n \<Longrightarrow> vsub u (zeros n) = u"
  by (induction u arbitrary: n) (auto simp: vsub_def zeros_def)

text \<open>
  Claim C2, as the code has it. For arguments of the solver's shapes, \<^verbatim>\<open>KKT(x, s, lda)\<close>
  is the list of four blocks in the order of section 4.2: the gradient of the Lagrangian
  in \<open>x\<close>; the slack block \<open>(lda[M:] - mu / (s + eps)) * s\<close>, where the denominator is
  \<open>s + eps\<close> and not \<open>s\<close>; \<open>c\<^sub>E(x)\<close>; and \<open>c\<^sub>I(x) - s\<close>. A block whose constraint set is
  empty is the scalar zero.
\<close>

theorem KKT_blocks:
  assumes "length (df P x) = nvar self"
    and "neq self \<noteq> 0 \<longrightarrow> length (dce P x) = nvar self \<and> length (ce P x) = neq self"
    and "nineq self \<noteq> 0 \<longrightarrow> length (dci P x) = nvar self \<and> length (ci P x) = nineq self"
    and "length s = nineq self" and "length lda = neq self + nineq self"
    and "\<forall>si \<in> set s. si + eps self \<noteq> 0"
  shows "KKT self P mu_dev x s lda =
    [Arr (kkt1_as_specified self P x lda),
     if nineq self \<noteq> 0
     then Arr (vmul (vsub (drop (neq self) lda) (map (\<lambda>si. mu_dev / (si + eps self)) s)) s)
     else Scalar 0,
     if neq self \<noteq> 0 then Arr (ce P x) else Scalar 0,
     if nineq self \<noteq> 0 then Arr (vsub (ci P x) s) else Scalar 0]"
proof -
  consider (both) "neq self \<noteq> 0" "nineq self \<noteq> 0" | (eq) "neq self \<noteq> 0" "nineq self = 0"
    | (ineq) "neq self = 0" "nineq self \<noteq> 0" | (none) "neq self = 0" "nineq self = 0"
    by blast
  then show ?thesis
  proof cases
    case both
    then show ?thesis using assms
      by (simp add: KKT_def grad_def Let_def set_sub_def slice_def kkt1_as_specified_def)
  next
    case eq
    then show ?thesis using assms
      by (simp add: KKT_def grad_def Let_def set_sub_def slice_def kkt1_as_specified_def
          vsub_zeros)
  next
    case ineq
    then show ?thesis using assms
      by (simp add: KKT_def grad_def Let_def set_sub_def slice_def kkt1_as_specified_def
          vsub_zeros)
  next
    case none
    then show ?thesis using assms
      by (simp add: KKT_def grad_def Let_def set_sub_def slice_def kkt1_as_specified_def
          vsub_zeros)
  qed
qed

theorem KKT_blocks_witness:
  "KKT (init defaults 1 0 1) ineq_problem (2 / 10) [3] [1] [1] =
     [Arr [5], Arr [1 - (2 / 10) / (1 + 1 / 2 ^ 23)], Scalar 0, Arr [2]]"
proof -
  have "KKT (init defaults 1 0 1) ineq_problem (2 / 10) [3] [1] [1] =
    [Arr (kkt1_as_specified (init defaults 1 0 1) ineq_problem [3] [1]),
     if nineq (init defaults 1 0 1) \<noteq> 0
     then Arr (vmul (vsub (drop (neq (init defaults 1 0 1)) [1])
                 (map (\<lambda>si. (2 / 10) / (si + eps (init defaults 1 0 1))) [1])) [1])
     else Scalar 0,
     if neq (init defaults 1 0 1) \<noteq> 0 then Arr (ce ineq_problem [3]) else Scalar 0,
     if nineq (init defaults 1 0 1) \<noteq> 0 then Arr (vsub (ci ineq_problem [3]) [1]) else Scalar 0]"
    by (rule KKT_blocks) (simp_all add: init_def defaults_def ineq_problem_def)
  then show ?thesis
    by (simp add: init_def defaults_def ineq_problem_def kkt1_as_specified_def vsub_def vmul_def
        mv_def dot_def zeros_def)
qed

text \<open>The slack block is not \<open>(lda[M:] - mu / s) * s\<close>: at \<open>s = 1\<close>, \<open>lda = 1\<close>,
  \<open>mu = 0.2\<close> the code returns \<open>1 - 0.2 / (1 + eps)\<close>, the specified form is \<open>0.8\<close>.\<close>

theorem KKT_slack_block_counterexample:
  "KKT (init defaults 1 0 1) ineq_problem (2 / 10) [3] [1] [1] ! 1 \<noteq>
     Arr (kkt2_as_specified (init defaults 1 0 1) (2 / 10) [1] [1])"
  by (simp add: KKT_def grad_def Let_def set_sub_def slice_def kkt2_as_specified_def
      init_def defaults_def ineq_problem_def vsub_def vmul_def mv_def dot_def zeros_def)

section \<open>The Hessian regularizer\<close>

lemma reghess_loop_count:
  assumes "reghess_loop self LA delta Hc w = Some r"
  shows "w = eigh LA Hc \<longrightarrow> count_below self (eigh LA (fst r)) = neq self + nineq self"
  by (rule reghess_loop.raw_induct [where P = "\<lambda>self LA delta Hc w r. w = eigh LA Hc \<longrightarrow>
        count_below self (eigh LA (fst r)) = neq self + nineq self", OF _ assms])
     (auto simp: Let_def split: if_splits)

lemma sqrt_eps64: "sqrt (1 / 4503599627370496) = 1 / 67108864"
  by (rule real_sqrt_unique) (simp_all add: power2_eq_square)

lemma reghess_shift_example:
  "reghess (init float64 1 0 0) diag_linalg (1 / 10 ^ 4) 0 [[- (1 / 2 ^ 26)]] =
     Some ([[0]], 1 / 2 ^ 26)"
  apply (simp add: reghess_def Let_def init_def float64_def defaults_def diag_linalg_def
      diagonal_def count_below_def rcond_small_def add_diag_def sqrt_eps64)
  apply (subst reghess_loop.simps)
  apply (simp add: count_below_def)
  done

text \<open>
  Claim C4, as the code has it. Whenever \<^verbatim>\<open>reghess\<close> returns, the eigenvalues of
  the returned matrix, as the kernel reports them, have exactly \<open>M + N\<close> entries below
  \<open>-eps\<close>. The acceptance test and the loop count the eigenvalues below \<open>-eps\<close>, not
  the negative ones, and after a shift they do not test for eigenvalues at or near zero.
\<close>

theorem reghess_count_below:
  assumes "reghess self LA mu_host delta Hc = Some (H', delta')"
  shows "count_below self (eigh LA H') = neq self + nineq self"
proof (cases "rcond_small self (eigh LA Hc) \<or> neq self + nineq self \<noteq> count_below self (eigh LA Hc)")
  case True
  then obtain d H where "reghess_loop self LA d H (eigh LA H) = Some (H', delta')"
    using assms by (auto simp: reghess_def Let_def split: if_splits)
  then show ?thesis using reghess_loop_count by fastforce
next
  case False
  then show ?thesis using assms by (simp add: reghess_def Let_def)
qed

text \<open>With 64-bit floats, the 1 by 1 matrix \<open>[-sqrt eps]\<close> of an unconstrained problem is
  shifted by \<open>delta0 = sqrt eps\<close> to the zero matrix, which is returned.\<close>

theorem reghess_count_below_witness:
  "reghess (init float64 1 0 0) diag_linalg (1 / 10 ^ 4) 0 [[- (1 / 2 ^ 26)]] =
     Some ([[0]], 1 / 2 ^ 26) \<and>
   count_below (init float64 1 0 0) (eigh diag_linalg [[0]]) = 0 \<and>
   inertia (eigh diag_linalg [[0]]) = (0, 0, 1)"
proof -
  have c: "count_below (init float64 1 0 0) (eigh diag_linalg [[0]]) =
      neq (init float64 1 0 0) + nineq (init float64 1 0 0)"
    by (rule reghess_count_below [OF reghess_shift_example])
  have n: "neq (init float64 1 0 0) + nineq (init float64 1 0 0) = 0"
    by (simp add: init_def)
  have i: "inertia (eigh diag_linalg [[0]]) = (0, 0, 1)"
    by (simp add: diag_linalg_def diagonal_def inertia_def)
  show ?thesis using reghess_shift_example c n i by simp
qed

text \<open>The inertia is not always \<open>(D, M + N, 0)\<close>: for the unconstrained problem with
  \<open>f(x) = - x\<^sup>2 / 2\<^sup>2\<^sup>5\<close> the matrix \<open>[- eps / 2]\<close> passes both tests and is returned as
  it is, with one negative eigenvalue and no positive one.\<close>

theorem reghess_inertia_counterexample:
  "reghess (init defaults 1 0 0) diag_linalg (1 / 10 ^ 4) 0 [[- (1 / 2 ^ 24)]] =
     Some ([[- (1 / 2 ^ 24)]], 0) \<and>
   inertia (eigh diag_linalg [[- (1 / 2 ^ 24)]]) \<noteq>
     (nvar (init defaults 1 0 0), neq (init defaults 1 0 0) + nineq (init defaults 1 0 0), 0)"
  by (simp add: reghess_def Let_def init_def defaults_def diag_linalg_def diagonal_def
      count_below_def rcond_small_def inertia_def)

section \<open>The limited-memory update\<close>

lemma map_last_set_last_col:
  "length v \<le> length A \<Longrightarrow> map last (set_last_col A v) = v"
  unfolding set_last_col_def
  by (induction A v rule: list_induct2') auto

lemma last_set_corner: "last (last (set_corner A c)) = c"
  by (simp add: set_corner_def)

lemma length_shift_cols [simp]: "length (shift_cols A) = length A"
  by (simp add: shift_cols_def)

lemma length_grow_cols [simp]: "length (grow_cols A) = length A"
  by (simp add: grow_cols_def)

text \<open>
  Claim C8, as the code has it. With \<open>dx = x_new - x_old\<close> and \<open>dg = g_old - g_new\<close> (primal
  block), the pair is committed exactly when \<open>dx \<bullet> dg > sqrt eps\<close> and
  \<open>zeta_new > sqrt eps\<close>: then \<open>zeta\<close> becomes \<open>zeta_new\<close>, the last columns of \<open>S\<close> and
  \<open>Y\<close> are \<open>dx\<close> and \<open>dg\<close>, the corner of \<open>D\<close> is \<open>dx \<bullet> dg\<close> and the failure counter is
  zero. On rejection the counter is incremented; if it then exceeds the memory limit
  and a pair is stored, the storage is reset by \<^verbatim>\<open>lbfgs_init\<close>; otherwise the arrays
  and \<open>zeta\<close> are unchanged.
\<close>

theorem lbfgs_update_commit_or_reject:
  assumes dx: "dx = lbfgs_dx x_old x_new" and dg: "dg = lbfgs_dg self g_old g_new"
    and shapes: "length x_old = nvar self" "length x_new = nvar self"
      "nvar self \<le> length g_old" "nvar self \<le> length g_new"
      "length (lb_S st) = nvar self" "length (lb_Y st) = nvar self"
  shows "(lbfgs_accepts self dx dg \<longrightarrow>
      (\<exists>st'. lbfgs_update self x_old x_new g_old g_new st = Inr st' \<and>
         st' = lbfgs_commit self dx dg st \<and>
         lb_zeta st' = zeta_new self dx dg \<and> map last (lb_S st') = dx \<and>
         map last (lb_Y st') = dg \<and> last (last (lb_D st')) = dot dx dg \<and> lb_fail st' = 0)) \<and>
    (\<not> lbfgs_accepts self dx dg \<longrightarrow>
      lbfgs_update self x_old x_new g_old g_new st =
        (if lbfgs_fail_max self < lb_fail st + 1 \<and> 0 < ncols (lb_S st) then lbfgs_init self
         else Inr (st \<lparr> lb_fail := lb_fail st + 1 \<rparr>)))"
proof (intro conjI impI)
  assume acc: "lbfgs_accepts self dx dg"
  have ldx: "length dx = nvar self" and ldg: "length dg = nvar self"
    using shapes by (simp_all add: dx dg lbfgs_dx_def lbfgs_dg_def vsub_def)
  have upd: "lbfgs_update self x_old x_new g_old g_new st = Inr (lbfgs_commit self dx dg st)"
    using acc by (simp add: lbfgs_update_def lbfgs_accepts_def Let_def dx dg lbfgs_commit_def)
  have "map last (lb_S (lbfgs_commit self dx dg st)) = dx"
    using ldx shapes by (simp add: lbfgs_commit_def Let_def map_last_set_last_col)
  moreover have "map last (lb_Y (lbfgs_commit self dx dg st)) = dg"
    using ldg shapes by (simp add: lbfgs_commit_def Let_def map_last_set_last_col)
  moreover have "last (last (lb_D (lbfgs_commit self dx dg st))) = dot dx dg"
    by (simp add: lbfgs_commit_def Let_def last_set_corner)
  ultimately show "\<exists>st'. lbfgs_update self x_old x_new g_old g_new st = Inr st' \<and>
         st' = lbfgs_commit self dx dg st \<and>
         lb_zeta st' = zeta_new self dx dg \<and> map last (lb_S st') = dx \<and>
         map last (lb_Y st') = dg \<and> last (last (lb_D st')) = dot dx dg \<and> lb_fail st' = 0"
    using upd by (simp add: lbfgs_commit_def Let_def)
next
  assume "\<not> lbfgs_accepts self dx dg"
  then show "lbfgs_update self x_old x_new g_old g_new st =
        (if lbfgs_fail_max self < lb_fail st + 1 \<and> 0 < ncols (lb_S st) then lbfgs_init self
         else Inr (st \<lparr> lb_fail := lb_fail st + 1 \<rparr>))"
    by (auto simp: lbfgs_update_def lbfgs_accepts_def Let_def dx dg)
qed

theorem lbfgs_update_commit_or_reject_witness:
  "lbfgs_accepts (init (float64 \<lparr> k_lbfgs := 4 \<rparr>) 1 0 0) [1] [1] \<and>
   lbfgs_update (init (float64 \<lparr> k_lbfgs := 4 \<rparr>) 1 0 0) [0] [1] [1] [0] empty_store =
     Inr \<lparr> lb_zeta = 1 / (1 + 1 / 2 ^ 52), lb_S = [[1]], lb_Y = [[1]], lb_SS = [[1]],
           lb_L = [[1]], lb_D = [[1]], lb_fail = 0 \<rparr>"
proof -
  let ?S = "init (float64 \<lparr> k_lbfgs := 4 \<rparr>) 1 0 0"
  have acc: "lbfgs_accepts ?S [1] [1]"
    by (simp add: lbfgs_accepts_def zeta_new_def init_def float64_def defaults_def dot_def
        sqrt_eps64)
  have "(lbfgs_accepts ?S [1] [1] \<longrightarrow>
      (\<exists>st'. lbfgs_update ?S [0] [1] [1] [0] empty_store = Inr st' \<and>
         st' = lbfgs_commit ?S [1] [1] empty_store \<and>
         lb_zeta st' = zeta_new ?S [1] [1] \<and> map last (lb_S st') = [1] \<and>
         map last (lb_Y st') = [1] \<and> last (last (lb_D st')) = dot [1] [1] \<and> lb_fail st' = 0)) \<and>
    (\<not> lbfgs_accepts ?S [1] [1] \<longrightarrow>
      lbfgs_update ?S [0] [1] [1] [0] empty_store =
        (if lbfgs_fail_max ?S < lb_fail empty_store + 1 \<and> 0 < ncols (lb_S empty_store)
         then lbfgs_init ?S else Inr (empty_store \<lparr> lb_fail := lb_fail empty_store + 1 \<rparr>)))"
    by (rule lbfgs_update_commit_or_reject)
       (simp_all add: lbfgs_dx_def lbfgs_dg_def vsub_def init_def empty_store_def)
  with acc have "lbfgs_update ?S [0] [1] [1] [0] empty_store =
      Inr (lbfgs_commit ?S [1] [1] empty_store)" by blast
  moreover have "lbfgs_commit ?S [1] [1] empty_store =
      \<lparr> lb_zeta = 1 / (1 + 1 / 2 ^ 52), lb_S = [[1]], lb_Y = [[1]], lb_SS = [[1]],
        lb_L = [[1]], lb_D = [[1]], lb_fail = 0 \<rparr>"
    by (simp add: lbfgs_commit_def Let_def empty_store_def init_def float64_def defaults_def
        ncols_def grow_cols_def grow_square_def set_last_col_def set_last_row_def
        set_corner_def mTv_def column_def dot_def zeta_new_def zeros_def)
  ultimately show ?thesis using acc by simp
qed

text \<open>A rejected update is not always a counter increment on unchanged arrays: with
  memory 1, one stored pair and one earlier rejection, a second rejection resets the
  storage, \<open>zeta\<close> and the counter.\<close>

theorem lbfgs_reject_resets_counterexample: "\<not> lbfgs_accepts (init (float64 \<lparr> k_lbfgs := 1 \<rparr>) 1 0 0) (lbfgs_dx [0] [1])
       (lbfgs_dg (init (float64 \<lparr> k_lbfgs := 1 \<rparr>) 1 0 0) [0] [1]) \<and>
   lbfgs_update (init (float64 \<lparr> k_lbfgs := 1 \<rparr>) 1 0 0) [0] [1] [0] [1] stored_pair =
     Inr \<lparr> lb_zeta = 1, lb_S = [[]], lb_Y = [[]], lb_SS = [], lb_L = [], lb_D = [], lb_fail = 0 \<rparr> \<and>
   lbfgs_update (init (float64 \<lparr> k_lbfgs := 1 \<rparr>) 1 0 0) [0] [1] [0] [1] stored_pair \<noteq>
     Inr (stored_pair \<lparr> lb_fail := lb_fail stored_pair + 1 \<rparr>)"
  by (simp add: lbfgs_update_def lbfgs_accepts_def lbfgs_dx_def lbfgs_dg_def zeta_new_def
      lbfgs_init_def init_def float64_def defaults_def stored_pair_def Let_def vsub_def dot_def
      ncols_def sqrt_eps64)

section \<open>The driver\<close>

lemma bnd_simps [simp]:
  "bnd None k = None"
  "bnd (Some (Inl e)) k = Some (Inl e)"
  "bnd (Some (Inr v)) k = k v"
  "bnd (ret v) k = k v"
  "bnd (raise e) k = raise e"
  by (simp_all add: bnd_def ret_def raise_def)

lemma bnd_eq_Inr:
  "bnd m k = Some (Inr r) \<Longrightarrow> \<exists>v. m = Some (Inr v) \<and> k v = Some (Inr r)"
  by (auto simp: bnd_def split: option.splits sum.splits)

lemma ret_eq_Inr [simp]: "ret v = Some (Inr r) \<longleftrightarrow> v = r"
  by (simp add: ret_def)

lemma lift_opt_eq_Inr [simp]: "lift_opt m = Some (Inr r) \<longleftrightarrow> m = Some r"
  by (cases m) (auto simp: lift_opt_def)

lemma lift_err_eq_Inr [simp]: "lift_err m = Some (Inr r) \<longleftrightarrow> m = Inr r"
  by (simp add: lift_err_def)

lemma outer_loop_converged:
  assumes "0 < k" "kkt_within (Ktol self) (st_kkt st)"
  shows "outer_loop self P LA k st = ret (st \<lparr> st_outer := Some (niter self - k) \<rparr>)"
  using assms by (cases k) (simp_all add: Let_def)

text \<open>What \<^verbatim>\<open>solve\<close> returns is the final iterate with \<open>fval = f(x)\<close>, and a run that
  ends without convergence returns normally: the message branch for that case assigns
  \<^verbatim>\<open>outer\<close> and \<^verbatim>\<open>inner\<close> itself.\<close>

lemma solve_returns_fval:
  assumes "solve self P LA x0 s0 lda0 = Some (Inr (x, s, lda, fval, kkt))"
  shows "fval = cost P x"
  using assms by (auto simp: solve_def dest!: bnd_eq_Inr)

lemma report_not_converged:
  "\<not> kkt_within (Ktol self) (st_kkt st) \<Longrightarrow> report self st = Inr ()"
  by (simp add: report_def Let_def)

lemma solve_budget_exhausted_returns:
  assumes "solve_run self P LA x0 s0 lda0 = Some (Inr st)"
    and "\<not> kkt_within (Ktol self) (st_kkt st)"
  shows "solve self P LA x0 s0 lda0 = ret (st_x st, st_s st, st_lda st, cost P (st_x st), st_kkt st)"
  using assms by (simp add: solve_def report_not_converged lift_err_def)

lemma solve_init_eq_example:
  "solve_init (init defaults 1 1 0) eq_problem diag_linalg (Some [0]) None (Some [0]) =
    ret (init defaults 1 1 0,
      \<lparr> st_x = [0], st_s = [], st_lda = [0], st_mu_host = 1 / 10 ^ 4, st_mu_dev = 1 / 10 ^ 4,
        st_nu_host = 10, st_nu_dev = 10, st_delta = 0,
        st_kkt = [Arr [0], Scalar 0, Arr [0], Scalar 0],
        st_store = \<lparr> lb_zeta = 0, lb_S = [], lb_Y = [], lb_SS = [], lb_L = [], lb_D = [],
                     lb_fail = 0 \<rparr>,
        st_x_old = [], st_g = [], st_iter_count = 0, st_outer = None, st_inner = None \<rparr>)"
  by (simp add: solve_init_def init_def defaults_def eq_problem_def Let_def KKT_def grad_def
      set_sub_def slice_def zeros_def vsub_def mv_def dot_def)

text \<open>
  Claim C1 at an input where the code raises. Minimise \<open>x\<^sup>2\<close> subject to \<open>x = 0\<close>, with the
  defaults (\<^verbatim>\<open>verbosity=1\<close>), from \<open>x0 = [0]\<close> and \<open>lda0 = [0]\<close>: all four blocks are
  zero, so the outer loop breaks at its first test, before any \<^verbatim>\<open>for inner\<close> has run.
  The summary message of the converged branch then reads the unbound local
  \<^verbatim>\<open>inner\<close>, and \<^verbatim>\<open>solve\<close> raises instead of returning the 5-tuple.
\<close>

theorem solve_converged_start_raises:
  "solve (init defaults 1 1 0) eq_problem diag_linalg (Some [0]) None (Some [0]) =
     raise UnboundLocalError"
proof -
  let ?self = "init defaults 1 1 0"
  obtain st where i: "solve_init ?self eq_problem diag_linalg (Some [0]) None (Some [0]) = ret (?self, st)"
    and k: "st_kkt st = [Arr [0], Scalar 0, Arr [0], Scalar 0]" and inn: "st_inner st = None"
    using solve_init_eq_example by simp
  have conv: "kkt_within (Ktol ?self) (st_kkt st)"
    by (simp add: k kkt_within_def init_def defaults_def)
  have n: "0 < niter ?self" by (simp add: init_def defaults_def)
  have run: "solve_run ?self eq_problem diag_linalg (Some [0]) None (Some [0]) =
      ret (st \<lparr> st_outer := Some (niter ?self - niter ?self) \<rparr>)"
    unfolding solve_run_def i by (simp only: bnd_simps prod.case outer_loop_converged [OF n conv])
  have "report ?self (st \<lparr> st_outer := Some (niter ?self - niter ?self) \<rparr>) = Inl UnboundLocalError"
    using conv inn by (simp add: report_def Let_def init_def defaults_def)
  then show ?thesis
    unfolding solve_def run by (simp only: bnd_simps) (simp add: lift_err_def raise_def)
qed

text \<open>The same happens from every start that already satisfies the conditions, when a
  constraint is present and \<^verbatim>\<open>verbosity >= 0\<close>.\<close>

lemma solve_raises_when_converged_at_start:
  assumes i: "solve_init self0 P LA x0 s0 lda0 = ret (self, st)"
    and conv: "kkt_within (Ktol self) (st_kkt st)"
    and v: "0 \<le> verbosity self0" and c: "neq self0 \<noteq> 0 \<or> nineq self0 \<noteq> 0"
  shows "solve self0 P LA x0 s0 lda0 = raise UnboundLocalError"
proof -
  obtain x where x: "x0 = Some x" "self = self0 \<lparr> nvar := length x \<rparr>"
    and inn: "st_inner st = None" and out: "st_outer st = None"
    using i
    by (auto simp: solve_init_def Let_def raise_def ret_def lift_err_def lbfgs_init_def
        split: option.splits if_splits)
  have K: "Ktol self = Ktol self0" "niter self = niter self0" by (simp_all add: x)
  obtain st' where run: "solve_run self0 P LA x0 s0 lda0 = ret st'"
    and st': "st_kkt st' = st_kkt st" "st_inner st' = None"
      "niter self0 = 0 \<longrightarrow> st_outer st' = None"
  proof (cases "niter self")
    case 0
    then show ?thesis using that [of st] inn out K by (simp add: solve_run_def i)
  next
    case (Suc k)
    then have "solve_run self0 P LA x0 s0 lda0 = ret (st \<lparr> st_outer := Some (niter self - Suc k) \<rparr>)"
      using conv by (simp add: solve_run_def i Let_def)
    then show ?thesis using that [of "st \<lparr> st_outer := Some (niter self - Suc k) \<rparr>"] inn Suc K
      by simp
  qed
  have "report self0 st' = Inl UnboundLocalError"
    using conv v c st' K by (auto simp: report_def Let_def split: option.splits)
  then show ?thesis
    unfolding solve_def run by (simp only: bnd_simps) (simp add: lift_err_def raise_def)
qed

section \<open>The initial L-BFGS scaling\<close>

text \<open>
  Claim C10. When the solver is constructed with L-BFGS enabled and an
  \<^verbatim>\<open>lbfgs_zeta\<close> argument that is not \<^verbatim>\<open>None\<close>, the attribute is not stored,
  \<^verbatim>\<open>lbfgs_init\<close> raises \<^verbatim>\<open>AttributeError\<close>, and so does \<^verbatim>\<open>solve\<close> at its first call
  of \<^verbatim>\<open>lbfgs_init\<close> (for any nonempty \<open>x0\<close>). With the default \<^verbatim>\<open>None\<close> the
  attribute is 1 and \<^verbatim>\<open>lbfgs_init\<close> returns an empty store with \<open>zeta = 1\<close>.
\<close>

theorem lbfgs_zeta_argument_not_stored:
  assumes "k_lbfgs kw \<noteq> 0"
  shows "(k_lbfgs_zeta kw \<noteq> None \<longrightarrow>
      lbfgs_zeta (init kw D M N) = None \<and>
      lbfgs_init (init kw D M N) = Inl AttributeError \<and>
      (x0 \<noteq> [] \<longrightarrow> solve (init kw D M N) P LA (Some x0) s0 lda0 = raise AttributeError)) \<and>
    (k_lbfgs_zeta kw = None \<longrightarrow>
      lbfgs_zeta (init kw D M N) = Some 1 \<and>
      (\<exists>st. lbfgs_init (init kw D M N) = Inr st \<and> lb_zeta st = 1 \<and> ncols (lb_S st) = 0))"
proof (intro conjI impI)
  assume z: "k_lbfgs_zeta kw \<noteq> None"
  show none: "lbfgs_zeta (init kw D M N) = None" using z by (simp add: init_def)
  show "lbfgs_init (init kw D M N) = Inl AttributeError"
    using none by (simp add: lbfgs_init_def)
  assume x0: "x0 \<noteq> []"
  have "lbfgs_init (init kw D M N \<lparr> nvar := length x0 \<rparr>) = Inl AttributeError"
    using none by (simp add: lbfgs_init_def)
  moreover have "lbfgs (init kw D M N \<lparr> nvar := length x0 \<rparr>) \<noteq> 0"
    using assms by (simp add: init_def)
  ultimately have "solve_init (init kw D M N) P LA (Some x0) s0 lda0 = raise AttributeError"
    using x0 by (simp add: solve_init_def Let_def lift_err_def raise_def)
  then show "solve (init kw D M N) P LA (Some x0) s0 lda0 = raise AttributeError"
    by (simp add: solve_def solve_run_def)
next
  assume z: "k_lbfgs_zeta kw = None"
  show one: "lbfgs_zeta (init kw D M N) = Some 1" using z assms by (simp add: init_def)
  show "\<exists>st. lbfgs_init (init kw D M N) = Inr st \<and> lb_zeta st = 1 \<and> ncols (lb_S st) = 0"
    using one by (cases D) (simp_all add: lbfgs_init_def ncols_def init_def)
qed

theorem lbfgs_zeta_argument_not_stored_witness:
  "solve (init (defaults \<lparr> k_lbfgs := 4, k_lbfgs_zeta := Some 2 \<rparr>) 1 0 0) ineq_problem
      diag_linalg (Some [3]) None None = raise AttributeError \<and>
   lbfgs_init (init (defaults \<lparr> k_lbfgs := 4, k_lbfgs_zeta := Some 2 \<rparr>) 1 0 0) =
      Inl AttributeError \<and>
   lbfgs_zeta (init (defaults \<lparr> k_lbfgs := 4 \<rparr>) 1 0 0) = Some 1"
proof -
  have a: "k_lbfgs (defaults \<lparr> k_lbfgs := 4, k_lbfgs_zeta := Some 2 \<rparr>) \<noteq> 0"
    and b: "k_lbfgs_zeta (defaults \<lparr> k_lbfgs := 4, k_lbfgs_zeta := Some 2 \<rparr>) \<noteq> None"
    and c: "k_lbfgs (defaults \<lparr> k_lbfgs := 4 \<rparr>) \<noteq> 0"
    and d: "k_lbfgs_zeta (defaults \<lparr> k_lbfgs := 4 \<rparr>) = None"
    and e: "[3::real] \<noteq> []"
    by (simp_all add: defaults_def)
  from lbfgs_zeta_argument_not_stored [OF a, of 1 0 0 "[3]" ineq_problem diag_linalg None None]
    lbfgs_zeta_argument_not_stored [OF c, of 1 0 0 "[3]" ineq_problem diag_linalg None None]
    b d e
  show ?thesis by blast
qed

section \<open>Frames of the loops\<close>

text \<open>What an inner iteration, the inner loop and the outer loop leave unchanged: the
  barrier parameter inside an inner loop, and the merit penalty never decreases.\<close>

lemma direction_frame:
  assumes "direction self P LA outer inner st = Some (Inr (st1, dz))"
  shows "st_x st1 = st_x st \<and> st_s st1 = st_s st \<and> st_lda st1 = st_lda st \<and>
    st_mu_host st1 = st_mu_host st \<and> st_mu_dev st1 = st_mu_dev st \<and>
    st_nu_host st1 = st_nu_host st \<and> st_nu_dev st1 = st_nu_dev st \<and>
    st_outer st1 = st_outer st \<and> st_inner st1 = st_inner st"
  using assms
  by (auto simp: direction_def Let_def split: if_splits prod.splits dest!: bnd_eq_Inr)

lemma nu_update_frame:
  "st_x (nu_update self P dz st) = st_x st \<and> st_s (nu_update self P dz st) = st_s st \<and>
   st_lda (nu_update self P dz st) = st_lda st \<and>
   st_mu_host (nu_update self P dz st) = st_mu_host st \<and>
   st_mu_dev (nu_update self P dz st) = st_mu_dev st \<and>
   st_outer (nu_update self P dz st) = st_outer st \<and>
   st_inner (nu_update self P dz st) = st_inner st \<and>
   st_nu_host st \<le> st_nu_host (nu_update self P dz st)"
  by (simp add: nu_update_def Let_def)

lemma inner_body_frame:
  assumes "inner_body self P LA outer inner st = Some (Inr st')"
  shows "st_mu_host st' = st_mu_host st \<and> st_mu_dev st' = st_mu_dev st \<and>
    st_nu_host st \<le> st_nu_host st' \<and> st_outer st' = st_outer st \<and> st_inner st' = st_inner st"
proof -
  from assms obtain st1 dz0 where d: "direction self P LA outer inner st = Some (Inr (st1, dz0))"
    and r: "\<exists>dz x s lda. st' = (nu_update self P dz st1) \<lparr> st_x := x, st_s := s, st_lda := lda,
         st_kkt := KKT self P (st_mu_dev (nu_update self P dz st1)) x s lda,
         st_iter_count := st_iter_count (nu_update self P dz st1) + 1 \<rparr>"
    unfolding inner_body_def Let_def
    by (fastforce dest!: bnd_eq_Inr split: prod.splits)
  from r obtain dz x s lda where st': "st' = (nu_update self P dz st1) \<lparr> st_x := x, st_s := s, st_lda := lda,
         st_kkt := KKT self P (st_mu_dev (nu_update self P dz st1)) x s lda,
         st_iter_count := st_iter_count (nu_update self P dz st1) + 1 \<rparr>" by blast
  show ?thesis
    using direction_frame [OF d] nu_update_frame [of self P dz st1] by (simp add: st')
qed

lemma inner_loop_frame:
  "inner_loop self P LA outer k st = Some (Inr st') \<Longrightarrow>
    st_mu_host st' = st_mu_host st \<and> st_mu_dev st' = st_mu_dev st \<and>
    st_nu_host st \<le> st_nu_host st'"
proof (induction k arbitrary: st)
  case 0
  then show ?case by simp
next
  case (Suc k)
  let ?st1 = "st \<lparr> st_inner := Some (miter self - Suc k) \<rparr>"
  show ?case
  proof (cases "kkt_within (max (Ktol self) (st_mu_host ?st1)) (st_kkt ?st1)")
    case True
    then show ?thesis using Suc.prems by (auto simp: Let_def)
  next
    case False
    then obtain st2 where b: "inner_body self P LA outer (miter self - Suc k) ?st1 = Some (Inr st2)"
      and l: "inner_loop self P LA outer k st2 = Some (Inr st')"
      using Suc.prems by (auto simp: Let_def dest!: bnd_eq_Inr)
    show ?thesis using inner_body_frame [OF b] Suc.IH [OF l] by simp
  qed
qed

lemma mu_update_frame:
  "st_nu_host (mu_update self st) = st_nu_host st \<and> st_s (mu_update self st) = st_s st \<and>
   st_lda (mu_update self st) = st_lda st \<and> st_x (mu_update self st) = st_x st"
  by (simp add: mu_update_def Let_def)

lemma outer_loop_nu:
  "outer_loop self P LA k st = Some (Inr st') \<Longrightarrow> st_nu_host st \<le> st_nu_host st'"
proof (induction k arbitrary: st)
  case 0
  then show ?case by simp
next
  case (Suc k)
  let ?st1 = "st \<lparr> st_outer := Some (niter self - Suc k) \<rparr>"
  show ?case
  proof (cases "kkt_within (Ktol self) (st_kkt ?st1)")
    case True
    then show ?thesis using Suc.prems by (auto simp: Let_def)
  next
    case False
    then obtain st2 where i: "inner_loop self P LA (niter self - Suc k) (miter self) ?st1 = Some (Inr st2)"
      and r: "(if niter self - Suc k \<ge> niter self - 1 then ret st2
               else outer_loop self P LA k (mu_update self st2)) = Some (Inr st')"
      using Suc.prems by (auto simp: Let_def dest!: bnd_eq_Inr)
    have a: "st_nu_host st \<le> st_nu_host st2" using inner_loop_frame [OF i] by simp
    show ?thesis
    proof (cases "niter self - Suc k \<ge> niter self - 1")
      case True
      then show ?thesis using r a by simp
    next
      case False
      then have "outer_loop self P LA k (mu_update self st2) = Some (Inr st')" using r by simp
      from Suc.IH [OF this] a show ?thesis by (simp add: mu_update_frame)
    qed
  qed
qed

lemma outer_loop_mu_fixed:
  "nineq self = 0 \<Longrightarrow> outer_loop self P LA k st = Some (Inr st') \<Longrightarrow>
     st_mu_host st' = st_mu_host st \<and> st_mu_dev st' = st_mu_dev st"
proof (induction k arbitrary: st)
  case 0
  then show ?case by simp
next
  case (Suc k)
  let ?st1 = "st \<lparr> st_outer := Some (niter self - Suc k) \<rparr>"
  show ?case
  proof (cases "kkt_within (Ktol self) (st_kkt ?st1)")
    case True
    then show ?thesis using Suc.prems by (auto simp: Let_def)
  next
    case False
    then obtain st2 where i: "inner_loop self P LA (niter self - Suc k) (miter self) ?st1 = Some (Inr st2)"
      and r: "(if niter self - Suc k \<ge> niter self - 1 then ret st2
               else outer_loop self P LA k (mu_update self st2)) = Some (Inr st')"
      using Suc.prems by (auto simp: Let_def dest!: bnd_eq_Inr)
    have a: "st_mu_host st2 = st_mu_host st \<and> st_mu_dev st2 = st_mu_dev st"
      using inner_loop_frame [OF i] by simp
    show ?thesis
    proof (cases "niter self - Suc k \<ge> niter self - 1")
      case True
      then show ?thesis using r a by simp
    next
      case False
      then have "outer_loop self P LA k (mu_update self st2) = Some (Inr st')" using r by simp
      from Suc.IH [OF Suc.prems(1) this] a Suc.prems(1) show ?thesis by (simp add: mu_update_def)
    qed
  qed
qed

lemma solve_init_fields:
  assumes "solve_init self0 P LA x0 s0 lda0 = Some (Inr (self, st))"
  shows "st_nu_host st = nu self0 \<and> st_nu_dev st = nu self0 \<and>
    st_mu_host st = (if nineq self0 \<noteq> 0 then mu self0 else Ktol self0) \<and>
    st_mu_dev st = st_mu_host st \<and> (\<exists>x. x0 = Some x \<and> self = self0 \<lparr> nvar := length x \<rparr>)"
  using assms
  by (auto simp: solve_init_def Let_def raise_def split: option.splits if_splits
      dest!: bnd_eq_Inr)

section \<open>A complete run without constraints\<close>

text \<open>With the defaults and the exact Hessian, the solve of \<open>min x\<^sup>2\<close> from \<open>x0 = 1\<close> takes one
  Newton step to \<open>x = 0\<close> and stops at the next convergence test.\<close>

lemma init_simps [simp]:
  "nvar (init kw D M N) = D" "neq (init kw D M N) = M" "nineq (init kw D M N) = N"
  "eps (init kw D M N) = k_eps kw" "mu (init kw D M N) = k_mu kw" "nu (init kw D M N) = k_nu kw"
  "rho (init kw D M N) = k_rho kw" "tau (init kw D M N) = k_tau kw"
  "eta (init kw D M N) = k_eta kw" "beta (init kw D M N) = k_beta kw"
  "miter (init kw D M N) = k_miter kw" "niter (init kw D M N) = k_niter kw"
  "Ktol (init kw D M N) = k_Ktol kw" "reg_coef (init kw D M N) = sqrt (k_eps kw)"
  "lbfgs (init kw D M N) = k_lbfgs kw" "lbfgs_fail_max (init kw D M N) = k_lbfgs kw"
  "verbosity (init kw D M N) = k_verbosity kw" "delta0 (init kw D M N) = sqrt (k_eps kw)"
  "init kw D M N \<lparr> nvar := D' \<rparr> = init kw D' M N"
  by (simp_all add: init_def)

lemma defaults_simps [simp]:
  "k_eps defaults = 1 / 2 ^ 23" "k_mu defaults = 2 / 10" "k_nu defaults = 10"
  "k_rho defaults = 1 / 10" "k_tau defaults = 995 / 1000" "k_eta defaults = 1 / 10 ^ 4"
  "k_beta defaults = 4 / 10" "k_miter defaults = 20" "k_niter defaults = 10"
  "k_Xtol defaults = None" "k_Ktol defaults = 1 / 10 ^ 4" "k_lbfgs defaults = 0"
  "k_lbfgs_zeta defaults = None" "k_verbosity defaults = 1"
  by (simp_all add: defaults_def)

lemma quad_init: "solve_init (init defaults 1 0 0) quad_problem diag_linalg (Some [1]) None None =
   ret (init defaults 1 0 0, quad_state [1] 0 None None)"
  by (simp add: solve_init_def quad_problem_def quad_state_def Let_def
      KKT_def grad_def set_sub_def zeros_def)

lemma quad_direction: "direction (init defaults 1 0 0) quad_problem diag_linalg 0 0 (quad_state [1] 0 out inn) =
   ret ((quad_state [1] 0 out inn) \<lparr> st_g := [- 2] \<rparr>, [- 1])"
  by (simp add: direction_def quad_problem_def quad_state_def Let_def
      grad_def set_sub_def zeros_def vneg_def reghess_def diag_linalg_def diagonal_def
      rcond_small_def count_below_def lift_opt_def lift_err_def ret_def)

lemma quad_search: "search (init defaults 1 0 0) quad_problem diag_linalg (1 / 10 ^ 4) 10 [1] [] [] [- 1] 1 1
   = ret ([0], [], [])"
  by (simp add: search_def search_lengths_def search_result_def armijo_fails_def quad_problem_def
      Let_def phi_def dphi_def vadd_def smul_def dot_def slice_def)

lemma quad_body: "inner_body (init defaults 1 0 0) quad_problem diag_linalg 0 0 (quad_state [1] 0 out inn) =
   ret (quad_state [0] 1 out inn)"
  unfolding inner_body_def quad_direction
  apply (simp only: bnd_simps prod.case)
  apply (simp add: Let_def nu_update_def quad_state_def)
  apply (simp add: quad_search [simplified])
  apply (simp add: KKT_def grad_def quad_problem_def set_sub_def zeros_def Let_def)
  done


lemma inner_loop_converged:
  assumes "0 < k" "kkt_within (max (Ktol self) (st_mu_host st)) (st_kkt st)"
  shows "inner_loop self P LA outer k st = ret (st \<lparr> st_inner := Some (miter self - k) \<rparr>)"
  using assms by (cases k) (simp_all add: Let_def)

lemma inner_loop_step:
  assumes "\<not> kkt_within (max (Ktol self) (st_mu_host st)) (st_kkt st)"
    and "inner_body self P LA outer (miter self - Suc k) (st \<lparr> st_inner := Some (miter self - Suc k) \<rparr>) = ret st2"
  shows "inner_loop self P LA outer (Suc k) st = inner_loop self P LA outer k st2"
  using assms by (simp add: Let_def)

lemma outer_loop_step:
  assumes "\<not> kkt_within (Ktol self) (st_kkt st)"
    and "inner_loop self P LA (niter self - Suc k) (miter self)
           (st \<lparr> st_outer := Some (niter self - Suc k) \<rparr>) = ret st2"
    and "niter self - Suc k < niter self - 1"
  shows "outer_loop self P LA (Suc k) st = outer_loop self P LA k (mu_update self st2)"
  using assms by (simp add: Let_def)

lemma quad_state_upd [simp]:
  "(quad_state x n out inn) \<lparr> st_outer := o' \<rparr> = quad_state x n o' inn"
  "(quad_state x n out inn) \<lparr> st_inner := i' \<rparr> = quad_state x n out i'"
  "st_kkt (quad_state x n out inn) = [Arr [2 * x ! 0], Scalar 0, Scalar 0, Scalar 0]"
  "st_mu_host (quad_state x n out inn) = 1 / 10 ^ 4"
  by (simp_all add: quad_state_def)

lemma quad_run: "solve_run (init defaults 1 0 0) quad_problem diag_linalg (Some [1]) None None =
   ret (quad_state [0] 1 (Some 1) (Some 1))"
proof -
  let ?S = "init defaults 1 0 0"
  have n: "niter ?S = Suc 9" and m: "miter ?S = Suc 19" by simp_all
  have far: "\<not> kkt_within (1 / 10 ^ 4) [Arr [2 * [1::real] ! 0], Scalar 0, Scalar 0, Scalar 0]"
    by (simp add: kkt_within_def)
  have near: "kkt_within (1 / 10 ^ 4) [Arr [2 * [0::real] ! 0], Scalar 0, Scalar 0, Scalar 0]"
    by (simp add: kkt_within_def)
  have body: "inner_body ?S quad_problem diag_linalg 0 (miter ?S - Suc 19)
      ((quad_state [1] 0 (Some 0) None) \<lparr> st_inner := Some (miter ?S - Suc 19) \<rparr>) =
      ret (quad_state [0] 1 (Some 0) (Some 0))"
    using quad_body [of "Some 0" "Some 0"] by simp
  have "inner_loop ?S quad_problem diag_linalg 0 (Suc 19) (quad_state [1] 0 (Some 0) None) =
      inner_loop ?S quad_problem diag_linalg 0 19 (quad_state [0] 1 (Some 0) (Some 0))"
    by (rule inner_loop_step [OF _ body]) (use far in simp)
  also have "\<dots> = ret (quad_state [0] 1 (Some 0) (Some 1))"
    by (subst inner_loop_converged) (use near in simp_all)
  finally have inner: "inner_loop ?S quad_problem diag_linalg (niter ?S - Suc 9) (miter ?S)
      ((quad_state [1] 0 None None) \<lparr> st_outer := Some (niter ?S - Suc 9) \<rparr>) =
      ret (quad_state [0] 1 (Some 0) (Some 1))"
    by simp
  have "outer_loop ?S quad_problem diag_linalg (Suc 9) (quad_state [1] 0 None None) =
      outer_loop ?S quad_problem diag_linalg 9 (mu_update ?S (quad_state [0] 1 (Some 0) (Some 1)))"
    by (rule outer_loop_step [OF _ inner]) (use far in simp_all)
  also have "\<dots> = ret (quad_state [0] 1 (Some 1) (Some 1))"
    by (subst outer_loop_converged) (use near in \<open>simp_all add: mu_update_def\<close>)
  finally show ?thesis
    unfolding solve_run_def quad_init by (simp only: bnd_simps prod.case n)
qed

section \<open>The barrier parameter and the merit penalty\<close>

lemma mu_next_as_specified:
  "nineq self \<noteq> 0 \<Longrightarrow> mu_next self s lda = mu_as_specified self s lda"
  by (simp add: mu_next_def mu_as_specified_def xi_as_specified_def Let_def max_def)

lemma np_norm_single: "np_norm (Arr [v]) = \<bar>v\<bar>"
  by simp

lemma ineq_init:
  "solve_init (init defaults 1 0 1) ineq_problem diag_linalg (Some [1 / 10]) (Some [1 / 10])
      (Some [1 / 5]) =
   ret (init defaults 1 0 1,
     \<lparr> st_x = [1 / 10], st_s = [1 / 10], st_lda = [1 / 5], st_mu_host = 1 / 5, st_mu_dev = 1 / 5,
       st_nu_host = 10, st_nu_dev = 10, st_delta = 0,
       st_kkt = [Arr [0], Arr [(1 / 5 - (1 / 5) / (1 / 10 + 1 / 2 ^ 23)) * (1 / 10)], Scalar 0,
                 Arr [0]],
       st_store = \<lparr> lb_zeta = 0, lb_S = [], lb_Y = [], lb_SS = [], lb_L = [], lb_D = [],
                    lb_fail = 0 \<rparr>,
       st_x_old = [], st_g = [], st_iter_count = 0, st_outer = None, st_inner = None \<rparr>)"
  by (simp add: solve_init_def ineq_problem_def Let_def KKT_def grad_def set_sub_def slice_def
      zeros_def vsub_def vmul_def mv_def dot_def)

text \<open>
  Claim C6. With inequality constraints, the update at the end of an outer iteration
  sets the barrier parameter (the host value and the shared variable) to
  \<open>0.1 min(0.05 (1 - xi) / (xi + eps), 2)\<^sup>3 (s\<^sup>T lda[M:] / N)\<close> clamped below at 0, and an
  outer iteration that is neither converged nor the last one continues with the state so
  updated. Without inequality constraints the parameter is \<open>Ktol\<close> at the end of every
  run (and, by the frame lemmas, throughout it).
\<close>

theorem barrier_update_rule:
  "(nineq self \<noteq> 0 \<and> dot (st_s st) (drop (neq self) (st_lda st)) + eps self \<noteq> 0 \<and>
      xi_as_specified self (st_s st) (st_lda st) + eps self \<noteq> 0 \<longrightarrow>
      st_mu_host (mu_update self st) = mu_as_specified self (st_s st) (st_lda st) \<and>
      st_mu_dev (mu_update self st) = mu_as_specified self (st_s st) (st_lda st)) \<and>
   (\<not> kkt_within (Ktol self) (st_kkt st) \<and>
      inner_loop self P LA (niter self - Suc k) (miter self)
        (st \<lparr> st_outer := Some (niter self - Suc k) \<rparr>) = Some (Inr st2) \<and>
      niter self - Suc k < niter self - 1 \<longrightarrow>
      outer_loop self P LA (Suc k) st = outer_loop self P LA k (mu_update self st2)) \<and>
   (nineq self = 0 \<and> solve_run self P LA x0 s0 lda0 = Some (Inr st') \<longrightarrow>
      st_mu_host st' = Ktol self \<and> st_mu_dev st' = Ktol self)"
proof (intro conjI impI)
  assume "nineq self \<noteq> 0 \<and> dot (st_s st) (drop (neq self) (st_lda st)) + eps self \<noteq> 0 \<and>
      xi_as_specified self (st_s st) (st_lda st) + eps self \<noteq> 0"
  then show "st_mu_host (mu_update self st) = mu_as_specified self (st_s st) (st_lda st)"
    and "st_mu_dev (mu_update self st) = mu_as_specified self (st_s st) (st_lda st)"
    by (simp_all add: mu_update_def Let_def mu_next_as_specified)
next
  assume "\<not> kkt_within (Ktol self) (st_kkt st) \<and>
      inner_loop self P LA (niter self - Suc k) (miter self)
        (st \<lparr> st_outer := Some (niter self - Suc k) \<rparr>) = Some (Inr st2) \<and>
      niter self - Suc k < niter self - 1"
  then show "outer_loop self P LA (Suc k) st = outer_loop self P LA k (mu_update self st2)"
    by (simp add: Let_def)
next
  assume a: "nineq self = 0 \<and> solve_run self P LA x0 s0 lda0 = Some (Inr st')"
  then obtain self1 st0 where i: "solve_init self P LA x0 s0 lda0 = Some (Inr (self1, st0))"
    and l: "outer_loop self1 P LA (niter self1) st0 = Some (Inr st')"
    by (auto simp: solve_run_def dest!: bnd_eq_Inr)
  from solve_init_fields [OF i] a
  have s: "st_mu_host st0 = Ktol self" "st_mu_dev st0 = Ktol self" "nineq self1 = 0"
    by auto
  from outer_loop_mu_fixed [OF s(3) l] s
  show "st_mu_host st' = Ktol self" and "st_mu_dev st' = Ktol self" by simp_all
qed

text \<open>For \<open>min x\<^sup>2\<close> subject to \<open>x \<ge> 0\<close> from \<open>x = s = 0.1\<close>, \<open>lda = 0.2\<close>, the residuals are
  within \<open>mu = 0.2\<close> but not within \<open>Ktol\<close>: the first inner loop stops at once and the
  outer iteration goes on with the updated parameter. The unconstrained run ends with
  \<open>mu = Ktol\<close>.\<close>

theorem barrier_update_rule_witness:
  "(\<exists>self st0 st2. solve_init (init defaults 1 0 1) ineq_problem diag_linalg (Some [1 / 10])
        (Some [1 / 10]) (Some [1 / 5]) = ret (self, st0) \<and>
      outer_loop self ineq_problem diag_linalg (niter self) st0 =
        outer_loop self ineq_problem diag_linalg 9 (mu_update self st2) \<and>
      st_mu_host (mu_update self st2) = mu_as_specified self [1 / 10] [1 / 5] \<and>
      st_mu_dev (mu_update self st2) = mu_as_specified self [1 / 10] [1 / 5]) \<and>
   (\<exists>st'. solve_run (init defaults 1 0 0) quad_problem diag_linalg (Some [1]) None None = ret st' \<and>
      st_mu_host st' = 1 / 10 ^ 4 \<and> st_mu_dev st' = 1 / 10 ^ 4)"
proof -
  let ?S = "init defaults 1 0 1"
  obtain st0 where i: "solve_init ?S ineq_problem diag_linalg (Some [1 / 10]) (Some [1 / 10])
        (Some [1 / 5]) = ret (?S, st0)"
    and f: "st_s st0 = [1 / 10]" "st_lda st0 = [1 / 5]" "st_mu_host st0 = 1 / 5"
      "st_kkt st0 = [Arr [0], Arr [(1 / 5 - (1 / 5) / (1 / 10 + 1 / 2 ^ 23)) * (1 / 10)], Scalar 0,
                 Arr [0]]"
    using ineq_init by simp
  let ?st1 = "st0 \<lparr> st_outer := Some (niter ?S - Suc 9) \<rparr>"
  let ?st2 = "?st1 \<lparr> st_inner := Some (miter ?S - miter ?S) \<rparr>"
  have far: "\<not> kkt_within (Ktol ?S) (st_kkt st0)"
    by (simp add: f kkt_within_def np_norm_single del: np_norm.simps(1))
  have near: "kkt_within (max (Ktol ?S) (st_mu_host ?st1)) (st_kkt ?st1)"
    by (simp add: f kkt_within_def np_norm_single del: np_norm.simps(1))
  have inner: "inner_loop ?S ineq_problem diag_linalg (niter ?S - Suc 9) (miter ?S) ?st1 =
      Some (Inr ?st2)"
    by (subst inner_loop_converged [OF _ near]) (simp_all add: ret_def)
  have fin: "niter ?S - Suc 9 < niter ?S - 1" by simp
  have hyp: "nineq ?S \<noteq> 0 \<and> dot (st_s ?st2) (drop (neq ?S) (st_lda ?st2)) + eps ?S \<noteq> 0 \<and>
      xi_as_specified ?S (st_s ?st2) (st_lda ?st2) + eps ?S \<noteq> 0"
    by (simp add: f xi_as_specified_def dot_def vmul_def)
  have q: "nineq (init defaults 1 0 0) = 0 \<and>
      solve_run (init defaults 1 0 0) quad_problem diag_linalg (Some [1]) None None =
        Some (Inr (quad_state [0] 1 (Some 1) (Some 1)))"
    using quad_run by (simp add: ret_def)
  from barrier_update_rule [of ?S st0 ineq_problem diag_linalg 9 ?st2] far inner fin
  have step: "outer_loop ?S ineq_problem diag_linalg (Suc 9) st0 =
        outer_loop ?S ineq_problem diag_linalg 9 (mu_update ?S ?st2)"
    by blast
  from barrier_update_rule [of ?S ?st2] hyp
  have m: "st_mu_host (mu_update ?S ?st2) = mu_as_specified ?S (st_s ?st2) (st_lda ?st2)"
      "st_mu_dev (mu_update ?S ?st2) = mu_as_specified ?S (st_s ?st2) (st_lda ?st2)"
    by blast+
  from barrier_update_rule [of "init defaults 1 0 0" _ quad_problem diag_linalg _ _
      "Some [1]" None None "quad_state [0] 1 (Some 1) (Some 1)"] q
  have k: "st_mu_host (quad_state [0] 1 (Some 1) (Some 1)) = Ktol (init defaults 1 0 0)"
    "st_mu_dev (quad_state [0] 1 (Some 1) (Some 1)) = Ktol (init defaults 1 0 0)"
    by blast+
  have first: "\<exists>self st0 st2. solve_init (init defaults 1 0 1) ineq_problem diag_linalg (Some [1 / 10])
        (Some [1 / 10]) (Some [1 / 5]) = ret (self, st0) \<and>
      outer_loop self ineq_problem diag_linalg (niter self) st0 =
        outer_loop self ineq_problem diag_linalg 9 (mu_update self st2) \<and>
      st_mu_host (mu_update self st2) = mu_as_specified self [1 / 10] [1 / 5] \<and>
      st_mu_dev (mu_update self st2) = mu_as_specified self [1 / 10] [1 / 5]"
    using i step m by (intro exI [of _ ?S] exI [of _ st0] exI [of _ ?st2]) (simp add: f)
  have second: "\<exists>st'. solve_run (init defaults 1 0 0) quad_problem diag_linalg (Some [1]) None None = ret st' \<and>
      st_mu_host st' = 1 / 10 ^ 4 \<and> st_mu_dev st' = 1 / 10 ^ 4"
    using quad_run k by (intro exI [of _ "quad_state [0] 1 (Some 1) (Some 1)"]) simp
  from first second show ?thesis by blast
qed

section \<open>One iteration with an inequality constraint\<close>

text \<open>The eigenvalues that the kernel reports are roots of the characteristic
  determinant, and its solution solves the system.\<close>

lemma kkt3_eigenvalues:
  assumes "a * c = 1" and "v \<in> set (eigh kkt3_linalg [[a, 0, 1], [0, c, - 1], [1, - 1, 0]])"
  shows "det3 [[a - v, 0, 1], [0, c - v, - 1], [1, - 1, 0 - v]] = 0"
proof -
  from assms(2) have "v = - 1 \<or> v = 1 \<or> v = a + c"
    by (auto simp: kkt3_linalg_def split: if_splits)
  then show ?thesis using assms(1) by (auto simp: det3_def algebra_simps)
qed

lemma kkt3_solves:
  assumes "sym_solve kkt3_linalg [[a1, a2, a3], [b1, b2, b3], [c1, c2, c3]] [r1, r2, r3] = Inr z"
  shows "mv [[a1, a2, a3], [b1, b2, b3], [c1, c2, c3]] z = [r1, r2, r3]"
proof -
  let ?A = "[[a1, a2, a3], [b1, b2, b3], [c1, c2, c3]]"
  from assms have d: "det3 ?A \<noteq> 0"
    and z: "z = [det3 (set_col ?A 0 [r1, r2, r3]) / det3 ?A, det3 (set_col ?A 1 [r1, r2, r3]) / det3 ?A,
                 det3 (set_col ?A 2 [r1, r2, r3]) / det3 ?A]"
    by (auto simp: kkt3_linalg_def split: if_splits)
  have e: "a1 * det3 (set_col ?A 0 [r1, r2, r3]) + a2 * det3 (set_col ?A 1 [r1, r2, r3]) +
      a3 * det3 (set_col ?A 2 [r1, r2, r3]) = r1 * det3 ?A"
    "b1 * det3 (set_col ?A 0 [r1, r2, r3]) + b2 * det3 (set_col ?A 1 [r1, r2, r3]) +
      b3 * det3 (set_col ?A 2 [r1, r2, r3]) = r2 * det3 ?A"
    "c1 * det3 (set_col ?A 0 [r1, r2, r3]) + c2 * det3 (set_col ?A 1 [r1, r2, r3]) +
      c3 * det3 (set_col ?A 2 [r1, r2, r3]) = r3 * det3 ?A"
    by (simp_all add: det3_def set_col_def algebra_simps)
  show ?thesis
    unfolding z mv_def dot_def using d e
    by (simp add: add_divide_distrib [symmetric] field_simps del: add_divide_distrib)
qed

text \<open>
  The first inner iteration for \<open>min (x - 265)\<^sup>2 / 2\<close> subject to \<open>x \<ge> 0\<close> from \<open>x = 145\<close>,
  \<open>s = 1 - eps\<close>, \<open>lda = 1\<close>, with the default parameters. The KKT matrix is
  \<open>[[1, 0, 1], [0, 1, - 1], [1, - 1, 0]]\<close> with eigenvalues \<open>- 1, 1, 2\<close>, so it is not
  regularized. The Newton direction has \<open>dx \<approx> - 11.9\<close>, \<open>ds \<approx> 132.1\<close>, \<open>dl \<approx> - 132.9\<close>:
  the penalty threshold is about \<open>10.81 > nu = 10\<close>, the full slack step is admissible,
  and the full multiplier step would give \<open>lda \<approx> - 131.9\<close>, so \<^verbatim>\<open>step\<close> runs its
  golden-section loop and returns some \<open>al < 1\<close>. The Armijo test holds at the full
  step.
\<close>

lemma one_iteration_simps [simp]:
  "k_eps one_iteration = 1 / 2 ^ 23" "k_mu one_iteration = 2 / 10" "k_nu one_iteration = 10"
  "k_rho one_iteration = 1 / 10" "k_tau one_iteration = 995 / 1000" "k_eta one_iteration = 1 / 10 ^ 4"
  "k_beta one_iteration = 4 / 10" "k_miter one_iteration = 1" "k_niter one_iteration = 1"
  "k_Xtol one_iteration = None" "k_Ktol one_iteration = 1 / 10 ^ 4" "k_lbfgs one_iteration = 0"
  "k_lbfgs_zeta one_iteration = None" "k_verbosity one_iteration = 1"
  by (simp_all add: one_iteration_def defaults_def)

lemma shift_init:
  "solve_init (init one_iteration 1 0 1) shift_problem kkt3_linalg (Some [145]) (Some [1 - 1 / 2 ^ 23]) (Some [1])
     = ret (init one_iteration 1 0 1, shift_state)"
  by (simp add: solve_init_def shift_problem_def shift_state_def Let_def KKT_def grad_def set_sub_def
      slice_def zeros_def vsub_def vmul_def mv_def dot_def)

lemma shift_direction:
  "direction (init one_iteration 1 0 1) shift_problem kkt3_linalg 0 0
       (shift_state \<lparr> st_outer := out, st_inner := inn \<rparr>) =
     ret (shift_state \<lparr> st_outer := out, st_inner := inn,
            st_g := [121, - (4 / 5), - (1207959553 / 8388608)] \<rparr>,
          [- (998244357 / 83886080), 11081351173 / 83886080, 11148460037 / 83886080])"
  by (simp add: direction_def shift_problem_def shift_state_def Let_def
      grad_def set_sub_def zeros_def vneg_def vsub_def mv_def dot_def reghess_def kkt3_linalg_def
      rcond_small_def count_below_def lift_opt_def lift_err_def ret_def det3_def set_col_def)

lemma shift_nu:
  "nu_update (init one_iteration 1 0 1) shift_problem
      [- (998244357 / 83886080), 11081351173 / 83886080, - (11148460037 / 83886080)]
      (shift_state \<lparr> st_outer := out, st_inner := inn, st_g := g \<rparr>) =
   shift_state \<lparr> st_outer := out, st_inner := inn, st_g := g,
      st_nu_host := 587865263027 / 54358179885, st_nu_dev := 587865263027 / 54358179885 \<rparr>"
  by (simp add: nu_update_def shift_problem_def shift_state_def Let_def barrier_cost_grad_def con_def
      set_sub_def zeros_def vsub_def dot_def sum_abs_def)

lemma shift_step_s:
  "step (init one_iteration 1 0 1) [1 - 1 / 2 ^ 23] [11081351173 / 83886080] = Some 1"
  by (simp add: step_def all_ge_def)

lemma shift_step_l:
  "\<exists>al. step (init one_iteration 1 0 1) [1] [- (11148460037 / 83886080)] = Some al \<and> 0 \<le> al \<and> al < 1 \<and>
     1 / 200 \<le> 1 - al * (11148460037 / 83886080)"
proof -
  let ?S = "init one_iteration 1 0 1"
  have "\<forall>v \<in> set [1::real]. 0 < v" "0 \<le> tau ?S" "0 < Xtol ?S"
    by (simp_all add: init_def)
  from step_returns [OF this, of "[- (11148460037 / 83886080)]"]
  obtain al where a: "step ?S [1] [- (11148460037 / 83886080)] = Some al" "0 \<le> al" "al \<le> 1"
    "all_ge ?S [1] [- (11148460037 / 83886080)] al" by blast
  have "\<not> all_ge ?S [1] [- (11148460037 / 83886080)] 1" by (simp add: all_ge_def)
  with a(4) have "al \<noteq> 1" by auto
  with a show ?thesis by (intro exI [of _ al]) (simp add: all_ge_def)
qed

lemma shift_armijo:
  "\<not> armijo_fails (init one_iteration 1 0 1) shift_problem (1 / 5) (587865263027 / 54358179885)
      [145] [1 - 1 / 2 ^ 23]
      [- (998244357 / 83886080), 11081351173 / 83886080, - (11148460037 / 83886080)] 1"
proof -
  have "ln (8388607 / 8388608) \<le> ln (11165237243 / 83886080 :: real)"
    by (subst ln_le_cancel_iff) simp_all
  then have "\<not> 36730759737492997 / 4194304000000 - ln (8388607 / 8388608) / 5
       < 122424796849922637849 / 14073748835532800 - ln (11165237243 / 83886080 :: real) / 5"
    by linarith
  then show ?thesis
    by (simp add: armijo_fails_def shift_problem_def Let_def phi_def dphi_def vadd_def smul_def
      dot_def slice_def sum_abs_def vsub_def)
qed

lemma shift_search:
  "search (init one_iteration 1 0 1) shift_problem kkt3_linalg (1 / 5) (587865263027 / 54358179885)
      [145] [1 - 1 / 2 ^ 23] [1]
      [- (998244357 / 83886080), 11081351173 / 83886080, - (11148460037 / 83886080)] 1 al =
   ret ([11165237243 / 83886080], [11165237243 / 83886080], [1 - al * (11148460037 / 83886080)])"
  using shift_armijo
  by (simp add: search_def search_lengths_def search_result_def Let_def vadd_def smul_def slice_def)

lemma shift_body:
  assumes "step (init one_iteration 1 0 1) [1] [- (11148460037 / 83886080)] = Some al"
  shows "inner_body (init one_iteration 1 0 1) shift_problem kkt3_linalg 0 0
       (shift_state \<lparr> st_outer := out, st_inner := inn \<rparr>) = ret (shift_next al out inn)"
  unfolding inner_body_def shift_direction
  apply (simp only: bnd_simps prod.case)
  apply (simp add: Let_def vneg_def shift_nu [simplified])
  apply (simp add: shift_state_def slice_def shift_step_s [simplified] assms [simplified] lift_opt_def
      shift_search [simplified] shift_next_def)
  done

lemma shift_run:
  assumes "step (init one_iteration 1 0 1) [1] [- (11148460037 / 83886080)] = Some al"
  shows "outer_loop (init one_iteration 1 0 1) shift_problem kkt3_linalg
       (niter (init one_iteration 1 0 1)) shift_state = ret (shift_next al (Some 0) (Some 0))"
    and "solve_run (init one_iteration 1 0 1) shift_problem kkt3_linalg (Some [145])
       (Some [1 - 1 / 2 ^ 23]) (Some [1]) = ret (shift_next al (Some 0) (Some 0))"
proof -
  let ?S = "init one_iteration 1 0 1"
  have b: "inner_body ?S shift_problem kkt3_linalg 0 0
       (shift_state \<lparr> st_outer := Some 0, st_inner := Some 0 \<rparr>) = ret (shift_next al (Some 0) (Some 0))"
    by (rule shift_body [OF assms])
  have n: "niter ?S = Suc 0" "miter ?S = Suc 0" by simp_all
  have k: "st_kkt shift_state = [Arr [- 121], Arr [8388607 / 10485760], Scalar 0, Arr [1207959553 / 8388608]]"
    "st_mu_host shift_state = 1 / 5"
    by (simp_all add: shift_state_def)
  have far: "\<not> kkt_within (Ktol ?S) (st_kkt shift_state)"
    "\<not> kkt_within (max (Ktol ?S) (1 / 5)) (st_kkt shift_state)"
    by (simp_all add: k kkt_within_def np_norm_single del: np_norm.simps(1))
  have inner: "inner_loop ?S shift_problem kkt3_linalg 0 (Suc 0) (shift_state \<lparr> st_outer := Some 0 \<rparr>) =
      ret (shift_next al (Some 0) (Some 0))"
    using far(2) b by (simp add: Let_def k)
  have outer: "outer_loop ?S shift_problem kkt3_linalg (Suc 0) shift_state = ret (shift_next al (Some 0) (Some 0))"
    using far(1) inner by (simp add: Let_def n)
  then show "outer_loop ?S shift_problem kkt3_linalg (niter ?S) shift_state =
      ret (shift_next al (Some 0) (Some 0))"
    by (simp only: n)
  show "solve_run ?S shift_problem kkt3_linalg (Some [145]) (Some [1 - 1 / 2 ^ 23]) (Some [1]) =
      ret (shift_next al (Some 0) (Some 0))"
    unfolding solve_run_def shift_init by (simp only: bnd_simps prod.case n outer)
qed

lemma mu_next_box: "mu_next (init (defaults \<lparr> k_miter := 0, k_niter := 2 \<rparr>) 1 0 2) [1, 1] [1, 99] = 40"
  by (simp add: mu_next_def Let_def vmul_def dot_def)

lemma box_init:
  "solve_init (init (defaults \<lparr> k_miter := 0, k_niter := 2 \<rparr>) 1 0 2) box_problem diag_linalg
      (Some [1]) (Some [1, 1]) (Some [1, 99]) =
   ret (init (defaults \<lparr> k_miter := 0, k_niter := 2 \<rparr>) 1 0 2,
     \<lparr> st_x = [1], st_s = [1, 1], st_lda = [1, 99], st_mu_host = 1 / 5, st_mu_dev = 1 / 5,
       st_nu_host = 10, st_nu_dev = 10, st_delta = 0,
       st_kkt = [Arr [100], Arr [1 - (1 / 5) / (1 + 1 / 2 ^ 23), 99 - (1 / 5) / (1 + 1 / 2 ^ 23)],
                 Scalar 0, Arr [0, 8]],
       st_store = \<lparr> lb_zeta = 0, lb_S = [], lb_Y = [], lb_SS = [], lb_L = [], lb_D = [],
                    lb_fail = 0 \<rparr>,
       st_x_old = [], st_g = [], st_iter_count = 0, st_outer = None, st_inner = None \<rparr>)"
  by (simp add: solve_init_def box_problem_def Let_def KKT_def grad_def set_sub_def slice_def
      zeros_def vsub_def vmul_def mv_def dot_def defaults_def)

lemma box_outer:
  "\<exists>st0 st'. solve_init (init (defaults \<lparr> k_miter := 0, k_niter := 2 \<rparr>) 1 0 2) box_problem
        diag_linalg (Some [1]) (Some [1, 1]) (Some [1, 99]) =
        ret (init (defaults \<lparr> k_miter := 0, k_niter := 2 \<rparr>) 1 0 2, st0) \<and>
     st_mu_host st0 = 1 / 5 \<and> st_s st0 = [1, 1] \<and> st_lda st0 = [1, 99] \<and>
     outer_loop (init (defaults \<lparr> k_miter := 0, k_niter := 2 \<rparr>) 1 0 2) box_problem diag_linalg
        (niter (init (defaults \<lparr> k_miter := 0, k_niter := 2 \<rparr>) 1 0 2)) st0 = ret st' \<and>
     st_mu_host st' = 40 \<and> st_mu_dev st' = 40 \<and> st_nu_host st' = 10 \<and>
     st_s st' = [1, 1] \<and> st_lda st' = [1, 99]"
proof -
  let ?S = "init (defaults \<lparr> k_miter := 0, k_niter := 2 \<rparr>) 1 0 2"
  obtain st0 where i: "solve_init ?S box_problem diag_linalg (Some [1]) (Some [1, 1]) (Some [1, 99]) =
      ret (?S, st0)"
    and f: "st_s st0 = [1, 1]" "st_lda st0 = [1, 99]" "st_mu_host st0 = 1 / 5" "st_nu_host st0 = 10"
      "st_kkt st0 = [Arr [100], Arr [1 - (1 / 5) / (1 + 1 / 2 ^ 23), 99 - (1 / 5) / (1 + 1 / 2 ^ 23)],
                 Scalar 0, Arr [0, 8]]"
    using box_init by simp
  have S: "niter ?S = Suc (Suc 0)" "miter ?S = 0" "Ktol ?S = 1 / 10 ^ 4" "nineq ?S = 2"
    by (simp_all add: defaults_def)
  have far: "\<not> np_norm (Arr [100]) \<le> 1 / 10 ^ 4"
    by (simp add: np_norm_single del: np_norm.simps(1))
  have conv: "\<And>st. st_kkt st = st_kkt st0 \<Longrightarrow> \<not> kkt_within (Ktol ?S) (st_kkt st)"
    using far by (simp add: kkt_within_def f S)
  let ?st1 = "st0 \<lparr> st_outer := Some 0 \<rparr>"
  let ?st2 = "(mu_update ?S ?st1) \<lparr> st_outer := Some 1 \<rparr>"
  have k2: "st_kkt ?st2 = st_kkt st0" by (simp add: mu_update_def Let_def S)
  have "outer_loop ?S box_problem diag_linalg (Suc (Suc 0)) st0 =
      outer_loop ?S box_problem diag_linalg (Suc 0) (mu_update ?S ?st1)"
    using conv [of ?st1] by (simp add: Let_def S)
  also have "\<dots> = ret ?st2"
    using conv [OF k2] by (simp add: Let_def S)
  finally have run: "outer_loop ?S box_problem diag_linalg (niter ?S) st0 = ret ?st2"
    by (simp only: S)
  have m: "st_mu_host ?st2 = 40" "st_mu_dev ?st2 = 40" "st_nu_host ?st2 = 10"
    "st_s ?st2 = [1, 1]" "st_lda ?st2 = [1, 99]"
    using mu_next_box by (simp_all add: mu_update_def Let_def S f)
  show ?thesis using i run m f(1-3) by blast
qed

lemma box_run:
  "\<exists>st0 st'. solve_init (init (defaults \<lparr> k_miter := 0, k_niter := 2 \<rparr>) 1 0 2) box_problem
        diag_linalg (Some [1]) (Some [1, 1]) (Some [1, 99]) =
        ret (init (defaults \<lparr> k_miter := 0, k_niter := 2 \<rparr>) 1 0 2, st0) \<and>
     st_mu_host st0 = 1 / 5 \<and>
     solve_run (init (defaults \<lparr> k_miter := 0, k_niter := 2 \<rparr>) 1 0 2) box_problem diag_linalg
        (Some [1]) (Some [1, 1]) (Some [1, 99]) = ret st' \<and>
     st_mu_host st' = 40 \<and> st_mu_dev st' = 40 \<and> st_nu_host st' = 10"
proof -
  let ?S = "init (defaults \<lparr> k_miter := 0, k_niter := 2 \<rparr>) 1 0 2"
  from box_outer obtain st0 st' where
    i: "solve_init ?S box_problem diag_linalg (Some [1]) (Some [1, 1]) (Some [1, 99]) = ret (?S, st0)"
    and o: "outer_loop ?S box_problem diag_linalg (niter ?S) st0 = ret st'"
    and f: "st_mu_host st0 = 1 / 5" "st_mu_host st' = 40" "st_mu_dev st' = 40" "st_nu_host st' = 10"
    by blast
  have "solve_run ?S box_problem diag_linalg (Some [1]) (Some [1, 1]) (Some [1, 99]) = ret st'"
    unfolding solve_run_def i by (simp only: bnd_simps prod.case o)
  with i f show ?thesis by blast
qed

text \<open>
  Claim C5, as the code has it. During a solve the merit penalty \<open>nu\<close> never decreases:
  not in an inner iteration, not in the barrier update, and so not over the whole run.
  The barrier parameter is unchanged by an inner iteration. With inequality constraints
  the update replaces it by the value of Section 4.10,
  \<open>0.1 min(0.05 (1 - xi) / (xi + eps), 2)\<^sup>3 (s\<^sup>T lda[M:] / N)\<close> clamped below at 0, which is
  computed from \<open>s\<close> and \<open>lda\<close> alone and is not bounded by the previous value; without
  them the update leaves it as it is. An outer iteration that is neither converged nor
  the last one continues with the state so updated.
\<close>

theorem nu_nondecreasing_mu_constant_in_inner:
  "(inner_body self P LA outer inner st = Some (Inr st') \<longrightarrow>
      st_nu_host st \<le> st_nu_host st' \<and> st_mu_host st' = st_mu_host st) \<and>
   st_nu_host (mu_update self st) = st_nu_host st \<and>
   (nineq self \<noteq> 0 \<longrightarrow>
      st_mu_host (mu_update self st) = mu_as_specified self (st_s st) (st_lda st) \<and>
      0 \<le> st_mu_host (mu_update self st)) \<and>
   (nineq self = 0 \<longrightarrow> st_mu_host (mu_update self st) = st_mu_host st) \<and>
   (\<not> kkt_within (Ktol self) (st_kkt st) \<and>
      inner_loop self P LA (niter self - Suc k) (miter self)
        (st \<lparr> st_outer := Some (niter self - Suc k) \<rparr>) = Some (Inr st2) \<and>
      niter self - Suc k < niter self - 1 \<longrightarrow>
      outer_loop self P LA (Suc k) st = outer_loop self P LA k (mu_update self st2)) \<and>
   (solve_run self P LA x0 s0 lda0 = Some (Inr st') \<longrightarrow> nu self \<le> st_nu_host st')"
proof (intro conjI impI)
  assume "inner_body self P LA outer inner st = Some (Inr st')"
  from inner_body_frame [OF this]
  show "st_nu_host st \<le> st_nu_host st'" and "st_mu_host st' = st_mu_host st" by simp_all
next
  show "st_nu_host (mu_update self st) = st_nu_host st" by (simp add: mu_update_frame)
next
  assume "nineq self \<noteq> 0"
  then show "st_mu_host (mu_update self st) = mu_as_specified self (st_s st) (st_lda st)"
    by (simp add: mu_update_def Let_def mu_next_as_specified)
next
  assume "nineq self \<noteq> 0"
  then show "0 \<le> st_mu_host (mu_update self st)"
    by (simp add: mu_update_def mu_next_def Let_def)
next
  assume "nineq self = 0"
  then show "st_mu_host (mu_update self st) = st_mu_host st" by (simp add: mu_update_def)
next
  assume "\<not> kkt_within (Ktol self) (st_kkt st) \<and>
      inner_loop self P LA (niter self - Suc k) (miter self)
        (st \<lparr> st_outer := Some (niter self - Suc k) \<rparr>) = Some (Inr st2) \<and>
      niter self - Suc k < niter self - 1"
  then show "outer_loop self P LA (Suc k) st = outer_loop self P LA k (mu_update self st2)"
    by (simp add: Let_def)
next
  assume "solve_run self P LA x0 s0 lda0 = Some (Inr st')"
  then obtain self1 st0 where i: "solve_init self P LA x0 s0 lda0 = Some (Inr (self1, st0))"
    and l: "outer_loop self1 P LA (niter self1) st0 = Some (Inr st')"
    by (auto simp: solve_run_def dest!: bnd_eq_Inr)
  from solve_init_fields [OF i] outer_loop_nu [OF l]
  show "nu self \<le> st_nu_host st'" by simp
qed

text \<open>
  In the first inner iteration for \<open>min (x - 265)\<^sup>2 / 2\<close> subject to \<open>x \<ge> 0\<close> from
  \<open>x = 145\<close>, \<open>s = 1 - eps\<close>, \<open>lda = 1\<close> the penalty threshold exceeds \<open>nu = 10\<close> and the
  update raises the penalty to \<open>587865263027 / 54358179885 \<approx> 10.81\<close>, while \<open>mu\<close> stays
  \<open>0.2\<close>; the run with a budget of one iteration ends with that penalty. For the box
  problem with \<open>s = (1, 1)\<close>, \<open>lda = (1, 99)\<close> and \<^verbatim>\<open>miter=0\<close>, \<^verbatim>\<open>niter=2\<close> the
  first outer iteration is followed by the update, which sets \<open>mu\<close> to the value \<open>40\<close> of
  Section 4.10 and leaves \<open>nu\<close> at \<open>10\<close>. Without constraints the update does nothing.
\<close>

theorem nu_nondecreasing_mu_constant_in_inner_witness:
  "(\<exists>al. inner_body (init one_iteration 1 0 1) shift_problem kkt3_linalg 0 0
        (shift_state \<lparr> st_outer := Some 0, st_inner := Some 0 \<rparr>) =
        ret (shift_next al (Some 0) (Some 0)) \<and>
      solve_run (init one_iteration 1 0 1) shift_problem kkt3_linalg (Some [145])
        (Some [1 - 1 / 2 ^ 23]) (Some [1]) = ret (shift_next al (Some 0) (Some 0)) \<and>
      st_nu_host shift_state = 10 \<and> nu (init one_iteration 1 0 1) = 10 \<and>
      st_nu_host (shift_next al (Some 0) (Some 0)) = 587865263027 / 54358179885 \<and>
      st_nu_host shift_state < st_nu_host (shift_next al (Some 0) (Some 0)) \<and>
      st_mu_host (shift_next al (Some 0) (Some 0)) = st_mu_host shift_state) \<and>
   (\<exists>st0 st1. solve_init (init (defaults \<lparr> k_miter := 0, k_niter := 2 \<rparr>) 1 0 2) box_problem
        diag_linalg (Some [1]) (Some [1, 1]) (Some [1, 99]) =
        ret (init (defaults \<lparr> k_miter := 0, k_niter := 2 \<rparr>) 1 0 2, st0) \<and>
      st_s st1 = [1, 1] \<and> st_lda st1 = [1, 99] \<and> st_mu_host st1 = 1 / 5 \<and>
      outer_loop (init (defaults \<lparr> k_miter := 0, k_niter := 2 \<rparr>) 1 0 2) box_problem diag_linalg
        (Suc 1) st0 =
      outer_loop (init (defaults \<lparr> k_miter := 0, k_niter := 2 \<rparr>) 1 0 2) box_problem diag_linalg
        1 (mu_update (init (defaults \<lparr> k_miter := 0, k_niter := 2 \<rparr>) 1 0 2) st1) \<and>
      st_mu_host (mu_update (init (defaults \<lparr> k_miter := 0, k_niter := 2 \<rparr>) 1 0 2) st1) =
        mu_as_specified (init (defaults \<lparr> k_miter := 0, k_niter := 2 \<rparr>) 1 0 2) [1, 1] [1, 99] \<and>
      st_mu_host (mu_update (init (defaults \<lparr> k_miter := 0, k_niter := 2 \<rparr>) 1 0 2) st1) = 40 \<and>
      st_nu_host (mu_update (init (defaults \<lparr> k_miter := 0, k_niter := 2 \<rparr>) 1 0 2) st1) = 10) \<and>
   st_mu_host (mu_update (init defaults 1 0 0) (quad_state [0] 1 (Some 0) (Some 1))) =
     st_mu_host (quad_state [0] 1 (Some 0) (Some 1))"
proof -
  let ?F = "init one_iteration 1 0 1"
  let ?B = "init (defaults \<lparr> k_miter := 0, k_niter := 2 \<rparr>) 1 0 2"
  let ?Q = "init defaults 1 0 0"
  let ?s = "shift_state \<lparr> st_outer := Some 0, st_inner := Some 0 \<rparr>"
  from shift_step_l obtain al where
    l: "step ?F [1] [- (11148460037 / 83886080)] = Some al" by blast
  let ?n = "shift_next al (Some 0) (Some 0)"
  note body = shift_body [OF l, of "Some 0" "Some 0"] and run = shift_run(2) [OF l]
  have f: "st_nu_host ?s = 10" "st_nu_host shift_state = 10" "nu ?F = 10"
    "st_nu_host ?n = 587865263027 / 54358179885" "st_mu_host ?n = 1 / 5"
    "st_mu_host ?s = 1 / 5" "st_mu_host shift_state = 1 / 5"
    by (simp_all add: shift_state_def shift_next_def)
  from nu_nondecreasing_mu_constant_in_inner [of ?F shift_problem kkt3_linalg 0 0 ?s ?n] body
  have one: "st_nu_host ?s \<le> st_nu_host ?n" "st_mu_host ?n = st_mu_host ?s"
    by (simp_all add: ret_def)
  from nu_nondecreasing_mu_constant_in_inner [of ?F shift_problem kkt3_linalg _ _ _ ?n _ _
      "Some [145]" "Some [1 - 1 / 2 ^ 23]" "Some [1]"] run
  have two: "nu ?F \<le> st_nu_host ?n" by (simp add: ret_def)
  have first: "\<exists>al. inner_body ?F shift_problem kkt3_linalg 0 0 ?s =
        ret (shift_next al (Some 0) (Some 0)) \<and>
      solve_run ?F shift_problem kkt3_linalg (Some [145]) (Some [1 - 1 / 2 ^ 23]) (Some [1]) =
        ret (shift_next al (Some 0) (Some 0)) \<and>
      st_nu_host shift_state = 10 \<and> nu ?F = 10 \<and>
      st_nu_host (shift_next al (Some 0) (Some 0)) = 587865263027 / 54358179885 \<and>
      st_nu_host shift_state < st_nu_host (shift_next al (Some 0) (Some 0)) \<and>
      st_mu_host (shift_next al (Some 0) (Some 0)) = st_mu_host shift_state"
    using body run one two f by (intro exI [of _ al]) simp
  obtain st0 where i: "solve_init ?B box_problem diag_linalg (Some [1]) (Some [1, 1]) (Some [1, 99]) =
      ret (?B, st0)"
    and g: "st_s st0 = [1, 1]" "st_lda st0 = [1, 99]" "st_mu_host st0 = 1 / 5" "st_nu_host st0 = 10"
      "st_kkt st0 = [Arr [100], Arr [1 - (1 / 5) / (1 + 1 / 2 ^ 23), 99 - (1 / 5) / (1 + 1 / 2 ^ 23)],
                 Scalar 0, Arr [0, 8]]"
    using box_init by simp
  let ?st1 = "st0 \<lparr> st_outer := Some 0 \<rparr>"
  have S: "niter ?B = Suc (Suc 0)" "miter ?B = 0" "Ktol ?B = 1 / 10 ^ 4" "nineq ?B \<noteq> 0"
    by (simp_all add: defaults_def)
  have "\<not> np_norm (Arr [100]) \<le> 1 / 10 ^ 4"
    by (simp add: np_norm_single del: np_norm.simps(1))
  then have far: "\<not> kkt_within (Ktol ?B) (st_kkt st0)"
    by (simp add: kkt_within_def g S)
  have inner: "inner_loop ?B box_problem diag_linalg (niter ?B - Suc (Suc 0)) (miter ?B)
      (st0 \<lparr> st_outer := Some (niter ?B - Suc (Suc 0)) \<rparr>) = Some (Inr ?st1)"
    by (simp add: S ret_def)
  have fin: "niter ?B - Suc (Suc 0) < niter ?B - 1" by (simp add: S)
  from nu_nondecreasing_mu_constant_in_inner [of ?B box_problem diag_linalg _ _ st0 _ "Suc 0" ?st1]
    far inner fin
  have step: "outer_loop ?B box_problem diag_linalg (Suc (Suc 0)) st0 =
      outer_loop ?B box_problem diag_linalg (Suc 0) (mu_update ?B ?st1)"
    by blast
  from nu_nondecreasing_mu_constant_in_inner [of ?B _ _ _ _ ?st1] S(4)
  have m: "st_mu_host (mu_update ?B ?st1) = mu_as_specified ?B (st_s ?st1) (st_lda ?st1)"
    "st_nu_host (mu_update ?B ?st1) = st_nu_host ?st1"
    by blast+
  have v: "mu_as_specified ?B [1, 1] [1, 99] = 40"
    using mu_next_box mu_next_as_specified [OF S(4), of "[1, 1]" "[1, 99]"] by simp
  have second: "\<exists>st0 st1. solve_init ?B box_problem diag_linalg (Some [1]) (Some [1, 1]) (Some [1, 99]) =
        ret (?B, st0) \<and>
      st_s st1 = [1, 1] \<and> st_lda st1 = [1, 99] \<and> st_mu_host st1 = 1 / 5 \<and>
      outer_loop ?B box_problem diag_linalg (Suc 1) st0 =
      outer_loop ?B box_problem diag_linalg 1 (mu_update ?B st1) \<and>
      st_mu_host (mu_update ?B st1) = mu_as_specified ?B [1, 1] [1, 99] \<and>
      st_mu_host (mu_update ?B st1) = 40 \<and> st_nu_host (mu_update ?B st1) = 10"
    using i step m v g by (intro exI [of _ st0] exI [of _ ?st1]) simp
  have q: "nineq ?Q = 0" by simp
  from nu_nondecreasing_mu_constant_in_inner [of ?Q _ _ _ _ "quad_state [0] 1 (Some 0) (Some 1)"] q
  have third: "st_mu_host (mu_update ?Q (quad_state [0] 1 (Some 0) (Some 1))) =
      st_mu_host (quad_state [0] 1 (Some 0) (Some 1))"
    by blast
  from first second third show ?thesis by blast
qed

text \<open>The barrier parameter can increase from one outer iteration to the next. For the
  box problem with \<open>s = (1, 1)\<close>, \<open>lda = (1, 99)\<close> and no inner iteration (\<^verbatim>\<open>miter=0\<close>,
  \<^verbatim>\<open>niter=2\<close>) the first outer iteration starts with \<open>mu = 0.2\<close> and the update gives
  \<open>0.1 \<sqdot> 2\<^sup>3 \<sqdot> 100 / 2 = 40\<close> for the second.\<close>

theorem mu_increases_counterexample:
  "\<exists>st0 st'. solve_init (init (defaults \<lparr> k_miter := 0, k_niter := 2 \<rparr>) 1 0 2) box_problem
        diag_linalg (Some [1]) (Some [1, 1]) (Some [1, 99]) =
        ret (init (defaults \<lparr> k_miter := 0, k_niter := 2 \<rparr>) 1 0 2, st0) \<and>
     solve_run (init (defaults \<lparr> k_miter := 0, k_niter := 2 \<rparr>) 1 0 2) box_problem diag_linalg
        (Some [1]) (Some [1, 1]) (Some [1, 99]) = ret st' \<and>
     st_mu_host st0 < st_mu_host st'"
proof -
  from box_run obtain st0 st' where
    "solve_init (init (defaults \<lparr> k_miter := 0, k_niter := 2 \<rparr>) 1 0 2) box_problem
        diag_linalg (Some [1]) (Some [1, 1]) (Some [1, 99]) =
        ret (init (defaults \<lparr> k_miter := 0, k_niter := 2 \<rparr>) 1 0 2, st0)"
    "st_mu_host st0 = 1 / 5"
    "solve_run (init (defaults \<lparr> k_miter := 0, k_niter := 2 \<rparr>) 1 0 2) box_problem diag_linalg
        (Some [1]) (Some [1, 1]) (Some [1, 99]) = ret st'"
    "st_mu_host st' = 40"
    by blast
  then show ?thesis by (intro exI [of _ st0] exI [of _ st']) simp
qed

section \<open>The line search keeps the iterate interior\<close>

lemma backtrack_bounds:
  assumes "backtrack fails t a al = Some r"
  shows "0 \<le> t \<and> t \<le> 1 \<and> 0 \<le> a \<and> 0 \<le> al \<longrightarrow>
    0 \<le> fst r \<and> fst r \<le> a \<and> 0 \<le> snd r \<and> snd r \<le> al"
proof (rule backtrack.raw_induct [where P = "\<lambda>fails t a al r. 0 \<le> t \<and> t \<le> 1 \<and> 0 \<le> a \<and> 0 \<le> al \<longrightarrow>
    0 \<le> fst r \<and> fst r \<le> a \<and> 0 \<le> snd r \<and> snd r \<le> al", OF _ assms])
  fix rec :: "(real \<Rightarrow> bool) \<Rightarrow> real \<Rightarrow> real \<Rightarrow> real \<Rightarrow> (real \<times> real) option"
    and fails t a al r
  assume IH: "\<And>fails t a al r. rec fails t a al = Some r \<Longrightarrow>
      0 \<le> t \<and> t \<le> 1 \<and> 0 \<le> a \<and> 0 \<le> al \<longrightarrow> 0 \<le> fst r \<and> fst r \<le> a \<and> 0 \<le> snd r \<and> snd r \<le> al"
    and eq: "(if fails a then rec fails t (a * t) (al * t) else Some (a, al)) = Some r"
  show "0 \<le> t \<and> t \<le> 1 \<and> 0 \<le> a \<and> 0 \<le> al \<longrightarrow> 0 \<le> fst r \<and> fst r \<le> a \<and> 0 \<le> snd r \<and> snd r \<le> al"
  proof (intro impI)
    assume h: "0 \<le> t \<and> t \<le> 1 \<and> 0 \<le> a \<and> 0 \<le> al"
    show "0 \<le> fst r \<and> fst r \<le> a \<and> 0 \<le> snd r \<and> snd r \<le> al"
    proof (cases "fails a")
      case True
      then have "rec fails t (a * t) (al * t) = Some r" using eq by simp
      from IH [OF this] h
      have "0 \<le> fst r \<and> fst r \<le> a * t \<and> 0 \<le> snd r \<and> snd r \<le> al * t" by simp
      moreover have "a * t \<le> a" "al * t \<le> al"
        using h by (simp_all add: mult_left_le)
      ultimately show ?thesis by linarith
    next
      case False
      then show ?thesis using eq h by auto
    qed
  qed
qed

lemma pos_vadd:
  assumes "\<forall>v \<in> set p. 0 < v" "tau self < 1" "all_ge self p dp a"
  shows "\<forall>v \<in> set (vadd p (smul a dp)). 0 < v"
proof
  fix v assume "v \<in> set (vadd p (smul a dp))"
  then obtain xi di where m: "(xi, di) \<in> set (zip p dp)" and v: "v = xi + a * di"
    by (auto simp: vadd_def smul_def zip_map2 set_zip)
  have "0 < xi" using m assms(1) by (auto dest: set_zip_leftD)
  then have "0 < (1 - tau self) * xi" using assms(2) by simp
  moreover have "(1 - tau self) * xi \<le> xi + a * di"
    using assms(3) m by (auto simp: all_ge_def list_all_iff)
  ultimately show "0 < v" using v by linarith
qed


lemma length_vadd_le: "length (vadd u v) \<le> length u"
  by (simp add: vadd_def)

lemma drop_vadd_smul: "drop n (vadd u (smul c v)) = vadd (drop n u) (smul c (drop n v))"
  by (simp add: vadd_def smul_def drop_zip drop_map)

lemma soc_ineq_accepts:
  assumes "soc_ineq self P LA mu_dev nu_dev x0 s0 dx ds a phi0 dphi0 = Some (Inr (Some (ac, dz_p)))"
  shows "step self s0 (vadd (smul a ds) (drop (nvar self) dz_p)) = Some ac"
  using assms unfolding soc_ineq_def soc_ineq_accept_def Let_def
  by (auto split: if_splits dest!: bnd_eq_Inr)

lemma search_lengths_bounds:
  assumes res: "search_lengths self P LA mu_dev nu_dev x0 s0 dz alpha_smax alpha_lmax =
      Some (Inr (corr, a, al))"
    and tau: "0 \<le> tau self" "tau self \<le> 1" and nn: "0 \<le> alpha_smax" "0 \<le> alpha_lmax"
  shows "0 \<le> a \<and> a \<le> alpha_smax \<and> 0 \<le> al \<and> al \<le> alpha_lmax \<and>
    (\<forall>ac dz_p. corr = Some (ac, dz_p) \<and> nineq self \<noteq> 0 \<longrightarrow>
       step self s0 (vadd (smul a (slice dz (nvar self) (nvar self + nineq self)))
                      (drop (nvar self) dz_p)) = Some ac)"
proof -
  define al0 where "al0 = (if neq self \<noteq> 0 \<or> nineq self \<noteq> 0 then alpha_lmax else 0)"
  have al0: "0 \<le> al0" "al0 \<le> alpha_lmax" using nn by (simp_all add: al0_def)
  show ?thesis
  proof (cases "armijo_fails self P mu_dev nu_dev x0 s0 dz alpha_smax")
    case False
    then have "corr = None" "a = alpha_smax" "al = al0"
      using res by (simp_all add: search_lengths_def Let_def al0_def)
    then show ?thesis using nn al0 by simp
  next
    case True
    then obtain c where soc: "(if nineq self \<noteq> 0
          then soc_ineq self P LA mu_dev nu_dev x0 s0 (take (nvar self) dz)
                 (slice dz (nvar self) (nvar self + nineq self)) alpha_smax
                 (phi self P mu_dev nu_dev x0 s0)
                 (dphi self P mu_dev nu_dev x0 s0 (take (nvar self + nineq self) dz))
          else soc_eq self P LA mu_dev nu_dev x0 s0 (take (nvar self) dz) alpha_smax
                 (phi self P mu_dev nu_dev x0 s0)
                 (dphi self P mu_dev nu_dev x0 s0 (take (nvar self + nineq self) dz))) = Some (Inr c)"
      and rest: "(case c of
            Some c' \<Rightarrow> ret (Some c', alpha_smax, al0)
          | None \<Rightarrow> bnd (lift_opt (backtrack (armijo_fails self P mu_dev nu_dev x0 s0 dz)
                                   (tau self) (alpha_smax * tau self) (al0 * tau self)))
                      (\<lambda>(a, al). ret (None, a, al))) = Some (Inr (corr, a, al))"
      using res unfolding search_lengths_def search_backtrack_def Let_def al0_def [symmetric]
      by (auto simp del: neq0_conv dest!: bnd_eq_Inr)
    show ?thesis
    proof (cases c)
      case None
      then obtain r where b: "backtrack (armijo_fails self P mu_dev nu_dev x0 s0 dz)
            (tau self) (alpha_smax * tau self) (al0 * tau self) = Some r"
        and r: "corr = None" "a = fst r" "al = snd r"
        using rest by (auto dest!: bnd_eq_Inr split: prod.splits)
      have "0 \<le> alpha_smax * tau self" "0 \<le> al0 * tau self"
        "alpha_smax * tau self \<le> alpha_smax" "al0 * tau self \<le> al0"
        using tau nn al0 by (simp_all add: mult_left_le)
      with backtrack_bounds [OF b] tau r al0 show ?thesis by auto
    next
      case (Some c')
      then have r: "corr = Some c'" "a = alpha_smax" "al = al0" using rest by simp_all
      have "step self s0 (vadd (smul a (slice dz (nvar self) (nvar self + nineq self)))
                      (drop (nvar self) dz_p)) = Some ac"
        if "c' = (ac, dz_p)" "nineq self \<noteq> 0" for ac dz_p
        using soc that Some r soc_ineq_accepts by auto
      then show ?thesis using r nn al0 by auto
    qed
  qed
qed

lemma search_interior:
  assumes tau: "0 \<le> tau self" "tau self < 1" and tol: "0 < Xtol self"
    and s0: "\<forall>v \<in> set s0. 0 < v" and l0: "\<forall>v \<in> set (drop (neq self) lda0). 0 < v"
    and len: "length lda0 \<le> neq self + nineq self"
    and a_s: "0 \<le> alpha_smax"
      "nineq self \<noteq> 0 \<longrightarrow> all_ge self s0 (slice dz (nvar self) (nvar self + nineq self)) alpha_smax"
    and a_l: "0 \<le> alpha_lmax"
      "nineq self \<noteq> 0 \<longrightarrow> all_ge self (drop (neq self) lda0)
          (drop (nvar self + nineq self + neq self) dz) alpha_lmax"
    and res: "search self P LA mu_dev nu_dev x0 s0 lda0 dz alpha_smax alpha_lmax = Some (Inr (x, s, lda))"
  shows "(\<forall>v \<in> set s. 0 < v) \<and> (\<forall>v \<in> set (drop (neq self) lda). 0 < v) \<and>
    length lda \<le> neq self + nineq self"
proof -
  let ?ds = "slice dz (nvar self) (nvar self + nineq self)"
  let ?dl = "drop (nvar self + nineq self) dz"
  from res obtain corr a al where
    sl: "search_lengths self P LA mu_dev nu_dev x0 s0 dz alpha_smax alpha_lmax = Some (Inr (corr, a, al))"
    and s: "s = (if nineq self \<noteq> 0 then
                        (case corr of
                           Some (alpha_corr, dz_p) \<Rightarrow>
                             vadd s0 (smul alpha_corr (vadd (smul a ?ds) (drop (nvar self) dz_p)))
                         | None \<Rightarrow> vadd s0 (smul a ?ds))
                      else s0)"
    and lda: "lda = (if neq self \<noteq> 0 \<or> nineq self \<noteq> 0 then vadd lda0 (smul al ?dl) else lda0)"
    unfolding search_def search_result_def Let_def by (auto dest!: bnd_eq_Inr split: prod.splits)
  from search_lengths_bounds [OF sl tau(1) _ a_s(1) a_l(1)] tau
  have b: "0 \<le> a" "a \<le> alpha_smax" "0 \<le> al" "al \<le> alpha_lmax"
    and st: "\<And>ac dz_p. corr = Some (ac, dz_p) \<Longrightarrow> nineq self \<noteq> 0 \<Longrightarrow>
       step self s0 (vadd (smul a ?ds) (drop (nvar self) dz_p)) = Some ac"
    by auto
  have len': "length lda \<le> neq self + nineq self"
    using len length_vadd_le [of lda0 "smul al ?dl"] by (auto simp: lda)
  have ps: "\<forall>v \<in> set s. 0 < v"
  proof (cases "nineq self \<noteq> 0")
    case False
    then show ?thesis using s0 s by simp
  next
    case True
    show ?thesis
    proof (cases corr)
      case None
      have "all_ge self s0 ?ds a" using all_ge_down [OF s0 tau(1) _ b(1,2)] a_s(2) True by blast
      from pos_vadd [OF s0 tau(2) this] show ?thesis using s True None by simp
    next
      case (Some c)
      obtain ac dz_p where c: "c = (ac, dz_p)" by (cases c)
      from step_returns [OF s0 tau(1) tol, of "vadd (smul a ?ds) (drop (nvar self) dz_p)"]
        st [of ac dz_p] Some c True
      have "all_ge self s0 (vadd (smul a ?ds) (drop (nvar self) dz_p)) ac" by auto
      from pos_vadd [OF s0 tau(2) this] show ?thesis using s True Some c by simp
    qed
  qed
  have pl: "\<forall>v \<in> set (drop (neq self) lda). 0 < v"
  proof (cases "nineq self \<noteq> 0")
    case False
    then have "length lda \<le> neq self" using len' by simp
    then show ?thesis by simp
  next
    case True
    have d: "drop (neq self) lda = vadd (drop (neq self) lda0)
        (smul al (drop (nvar self + nineq self + neq self) dz))"
      using True by (simp add: lda drop_vadd_smul add.commute)
    have "all_ge self (drop (neq self) lda0) (drop (nvar self + nineq self + neq self) dz) al"
      using all_ge_down [OF l0 tau(1) _ b(3,4)] a_l(2) True by blast
    from pos_vadd [OF l0 tau(2) this] show ?thesis by (simp add: d)
  qed
  from ps pl len' show ?thesis by blast
qed

lemma inner_body_interior:
  assumes tau: "0 \<le> tau self" "tau self < 1" and tol: "0 < Xtol self"
    and inv: "interior self st"
    and res: "inner_body self P LA outer inner st = Some (Inr st')"
  shows "interior self st'"
proof -
  let ?D = "nvar self" and ?M = "neq self" and ?N = "nineq self"
  from res obtain st1 dz0 where d: "direction self P LA outer inner st = Some (Inr (st1, dz0))"
    and rest: "(let dz = (if ?M \<noteq> 0 \<or> ?N \<noteq> 0 then take (?D + ?N) dz0 @ vneg (drop (?D + ?N) dz0) else dz0);
            st2 = nu_update self P dz st1
        in bnd (if ?N \<noteq> 0 then
                  bnd (lift_opt (step self (st_s st2) (slice dz ?D (?D + ?N))))
                    (\<lambda>alpha_smax.
                      bnd (lift_opt (step self (drop ?M (st_lda st2)) (drop (?D + ?N + ?M) dz)))
                        (\<lambda>alpha_lmax.
                          search self P LA (st_mu_dev st2) (st_nu_dev st2) (st_x st2) (st_s st2)
                            (st_lda st2) dz alpha_smax alpha_lmax))
                else search self P LA (st_mu_dev st2) (st_nu_dev st2) (st_x st2) (st_s st2)
                       (st_lda st2) dz 1 1)
             (\<lambda>(x, s, lda).
               ret (st2 \<lparr> st_x := x, st_s := s, st_lda := lda,
                           st_kkt := KKT self P (st_mu_dev st2) x s lda,
                           st_iter_count := st_iter_count st2 + 1 \<rparr>))) = Some (Inr st')"
    unfolding inner_body_def Let_def
    by (auto simp del: neq0_conv dest!: bnd_eq_Inr)
  define dz where "dz = (if ?M \<noteq> 0 \<or> ?N \<noteq> 0 then take (?D + ?N) dz0 @ vneg (drop (?D + ?N) dz0) else dz0)"
  define st2 where "st2 = nu_update self P dz st1"
  have f: "st_s st2 = st_s st" "st_lda st2 = st_lda st"
    using direction_frame [OF d] nu_update_frame [of self P dz st1] by (simp_all add: st2_def)
  have s0: "\<forall>v \<in> set (st_s st2). 0 < v" and l0: "\<forall>v \<in> set (drop ?M (st_lda st2)). 0 < v"
    and len: "length (st_lda st2) \<le> ?M + ?N"
    using inv by (simp_all add: interior_def f)
  from rest obtain x s lda where
    sr: "(if ?N \<noteq> 0 then
                  bnd (lift_opt (step self (st_s st2) (slice dz ?D (?D + ?N))))
                    (\<lambda>alpha_smax.
                      bnd (lift_opt (step self (drop ?M (st_lda st2)) (drop (?D + ?N + ?M) dz)))
                        (\<lambda>alpha_lmax.
                          search self P LA (st_mu_dev st2) (st_nu_dev st2) (st_x st2) (st_s st2)
                            (st_lda st2) dz alpha_smax alpha_lmax))
                else search self P LA (st_mu_dev st2) (st_nu_dev st2) (st_x st2) (st_s st2)
                       (st_lda st2) dz 1 1) = Some (Inr (x, s, lda))"
    and st': "st_s st' = s" "st_lda st' = lda"
    unfolding Let_def dz_def [symmetric] st2_def [symmetric]
    by (auto simp del: neq0_conv dest!: bnd_eq_Inr)
  have "(\<forall>v \<in> set s. 0 < v) \<and> (\<forall>v \<in> set (drop ?M lda). 0 < v) \<and> length lda \<le> ?M + ?N"
  proof (cases "?N \<noteq> 0")
    case False
    then have "search self P LA (st_mu_dev st2) (st_nu_dev st2) (st_x st2) (st_s st2)
                       (st_lda st2) dz 1 1 = Some (Inr (x, s, lda))" using sr by simp
    from search_interior [OF tau tol s0 l0 len _ _ _ _ this] False show ?thesis by simp
  next
    case True
    then obtain a_s a_l where
      as: "step self (st_s st2) (slice dz ?D (?D + ?N)) = Some a_s"
      and al: "step self (drop ?M (st_lda st2)) (drop (?D + ?N + ?M) dz) = Some a_l"
      and se: "search self P LA (st_mu_dev st2) (st_nu_dev st2) (st_x st2) (st_s st2)
                            (st_lda st2) dz a_s a_l = Some (Inr (x, s, lda))"
      using sr by (auto simp del: neq0_conv dest!: bnd_eq_Inr)
    from step_returns [OF s0 tau(1) tol, of "slice dz ?D (?D + ?N)"] as
    have 1: "0 \<le> a_s" "all_ge self (st_s st2) (slice dz ?D (?D + ?N)) a_s" by auto
    from step_returns [OF l0 tau(1) tol, of "drop (?D + ?N + ?M) dz"] al
    have 2: "0 \<le> a_l" "all_ge self (drop ?M (st_lda st2)) (drop (?D + ?N + ?M) dz) a_l" by auto
    from search_interior [OF tau tol s0 l0 len 1(1) _ 2(1) _ se] 1(2) 2(2) show ?thesis by simp
  qed
  then show ?thesis by (simp add: interior_def st')
qed

lemma interior_cong:
  "st_s st' = st_s st \<Longrightarrow> st_lda st' = st_lda st \<Longrightarrow> interior self st' = interior self st"
  by (simp add: interior_def)

lemma inner_loop_interior:
  assumes tau: "0 \<le> tau self" "tau self < 1" and tol: "0 < Xtol self"
  shows "interior self st \<Longrightarrow> inner_loop self P LA outer k st = Some (Inr st') \<Longrightarrow>
    interior self st'"
proof (induction k arbitrary: st)
  case 0
  then show ?case by simp
next
  case (Suc k)
  let ?st1 = "st \<lparr> st_inner := Some (miter self - Suc k) \<rparr>"
  have i1: "interior self ?st1" using Suc.prems(1) by (simp add: interior_def)
  show ?case
  proof (cases "kkt_within (max (Ktol self) (st_mu_host ?st1)) (st_kkt ?st1)")
    case True
    then have "st' = ?st1" using Suc.prems(2) by (simp add: Let_def)
    then show ?thesis using i1 by simp
  next
    case False
    then obtain st2 where b: "inner_body self P LA outer (miter self - Suc k) ?st1 = Some (Inr st2)"
      and l: "inner_loop self P LA outer k st2 = Some (Inr st')"
      using Suc.prems(2) by (auto simp: Let_def dest!: bnd_eq_Inr)
    from Suc.IH [OF inner_body_interior [OF tau tol i1 b] l] show ?thesis .
  qed
qed

lemma outer_loop_interior:
  assumes tau: "0 \<le> tau self" "tau self < 1" and tol: "0 < Xtol self"
  shows "interior self st \<Longrightarrow> outer_loop self P LA k st = Some (Inr st') \<Longrightarrow>
    interior self st'"
proof (induction k arbitrary: st)
  case 0
  then show ?case by simp
next
  case (Suc k)
  let ?st1 = "st \<lparr> st_outer := Some (niter self - Suc k) \<rparr>"
  have i1: "interior self ?st1" using Suc.prems(1) by (simp add: interior_def)
  show ?case
  proof (cases "kkt_within (Ktol self) (st_kkt ?st1)")
    case True
    then have "st' = ?st1" using Suc.prems(2) by (simp add: Let_def)
    then show ?thesis using i1 by simp
  next
    case False
    then obtain st2 where i: "inner_loop self P LA (niter self - Suc k) (miter self) ?st1 = Some (Inr st2)"
      and r: "(if niter self - Suc k \<ge> niter self - 1 then ret st2
               else outer_loop self P LA k (mu_update self st2)) = Some (Inr st')"
      using Suc.prems(2) by (auto simp: Let_def dest!: bnd_eq_Inr)
    have i2: "interior self st2" by (rule inner_loop_interior [OF tau tol i1 i])
    show ?thesis
    proof (cases "niter self - Suc k \<ge> niter self - 1")
      case True
      then show ?thesis using r i2 by simp
    next
      case False
      then have o: "outer_loop self P LA k (mu_update self st2) = Some (Inr st')" using r by simp
      have "interior self (mu_update self st2)"
        using i2 by (simp add: interior_def mu_update_frame)
      from Suc.IH [OF this o] show ?thesis .
    qed
  qed
qed

text \<open>
  Claim C3. Let \<open>0 < tau < 1\<close> and \<open>Xtol > 0\<close> (over the reals). From an iterate whose
  slacks and inequality multipliers are strictly positive, every iterate that an inner
  iteration returns (direction, penalty update, the two fraction-to-the-boundary steps
  and the line search with its backtracking and its second-order correction) has
  strictly positive slacks and inequality multipliers, and so has every iterate that the
  outer loop returns.
\<close>

theorem slacks_and_multipliers_stay_positive:
  assumes "0 < tau self" "tau self < 1" "0 < Xtol self"
    and "\<forall>v \<in> set (st_s st). 0 < v" and "\<forall>v \<in> set (drop (neq self) (st_lda st)). 0 < v"
    and "length (st_lda st) = neq self + nineq self"
  shows "(inner_body self P LA outer inner st = Some (Inr st') \<longrightarrow>
      (\<forall>v \<in> set (st_s st'). 0 < v) \<and> (\<forall>v \<in> set (drop (neq self) (st_lda st')). 0 < v)) \<and>
    (outer_loop self P LA k st = Some (Inr st') \<longrightarrow>
      (\<forall>v \<in> set (st_s st'). 0 < v) \<and> (\<forall>v \<in> set (drop (neq self) (st_lda st')). 0 < v))"
proof -
  have i: "interior self st" using assms by (simp add: interior_def)
  have t: "0 \<le> tau self" using assms(1) by simp
  show ?thesis
    using inner_body_interior [OF t assms(2,3) i] outer_loop_interior [OF t assms(2,3) i]
    by (auto simp: interior_def)
qed

text \<open>
  The first inner iteration for \<open>min (x - 265)\<^sup>2 / 2\<close> subject to \<open>x \<ge> 0\<close> from \<open>x = 145\<close>,
  \<open>s = 1 - eps\<close>, \<open>lda = 1\<close>: the full step in the multiplier is inadmissible (it would
  give \<open>lda \<approx> - 131.9\<close>), \<^verbatim>\<open>step\<close> caps it at some \<open>al < 1\<close>, and the line search
  takes the full step in \<open>x\<close> and \<open>s\<close>; the new slack and the new multiplier are positive.
  The same holds for the iterate that the outer loop returns with a budget of one
  iteration.
\<close>

theorem slacks_and_multipliers_stay_positive_witness:
  "\<exists>al st'. solve_init (init one_iteration 1 0 1) shift_problem kkt3_linalg (Some [145])
        (Some [1 - 1 / 2 ^ 23]) (Some [1]) = ret (init one_iteration 1 0 1, shift_state) \<and>
      \<not> all_ge (init one_iteration 1 0 1) (drop (neq (init one_iteration 1 0 1)) (st_lda shift_state))
          [- (11148460037 / 83886080)] 1 \<and>
      step (init one_iteration 1 0 1) (drop (neq (init one_iteration 1 0 1)) (st_lda shift_state))
          [- (11148460037 / 83886080)] = Some al \<and> 0 \<le> al \<and> al < 1 \<and>
      inner_body (init one_iteration 1 0 1) shift_problem kkt3_linalg 0 0
        (shift_state \<lparr> st_outer := Some 0, st_inner := Some 0 \<rparr>) = ret st' \<and>
      outer_loop (init one_iteration 1 0 1) shift_problem kkt3_linalg
        (niter (init one_iteration 1 0 1)) shift_state = ret st' \<and>
      st_s st' = [11165237243 / 83886080] \<and>
      st_lda st' = [1 - al * (11148460037 / 83886080)] \<and>
      (\<forall>v \<in> set (st_s st'). 0 < v) \<and>
      (\<forall>v \<in> set (drop (neq (init one_iteration 1 0 1)) (st_lda st')). 0 < v)"
proof -
  let ?F = "init one_iteration 1 0 1"
  let ?s = "shift_state \<lparr> st_outer := Some 0, st_inner := Some 0 \<rparr>"
  from shift_step_l obtain al where
    l: "step ?F [1] [- (11148460037 / 83886080)] = Some al" and a: "0 \<le> al" "al < 1" by blast
  let ?n = "shift_next al (Some 0) (Some 0)"
  note body = shift_body [OF l, of "Some 0" "Some 0"] and run = shift_run(1) [OF l]
  have h: "0 < tau ?F" "tau ?F < 1" "0 < Xtol ?F"
    by (simp_all add: init_def)
  have p: "\<forall>v \<in> set (st_s ?s). 0 < v" "\<forall>v \<in> set (drop (neq ?F) (st_lda ?s)). 0 < v"
    "length (st_lda ?s) = neq ?F + nineq ?F"
    "\<forall>v \<in> set (st_s shift_state). 0 < v" "\<forall>v \<in> set (drop (neq ?F) (st_lda shift_state)). 0 < v"
    "length (st_lda shift_state) = neq ?F + nineq ?F"
    by (simp_all add: shift_state_def)
  have b': "inner_body ?F shift_problem kkt3_linalg 0 0 ?s = Some (Inr ?n)"
    using body by (simp add: ret_def)
  have r': "outer_loop ?F shift_problem kkt3_linalg (niter ?F) shift_state = Some (Inr ?n)"
    using run by (simp add: ret_def)
  from slacks_and_multipliers_stay_positive [OF h p(1-3), of shift_problem kkt3_linalg 0 0 ?n] b'
  have one: "(\<forall>v \<in> set (st_s ?n). 0 < v) \<and> (\<forall>v \<in> set (drop (neq ?F) (st_lda ?n)). 0 < v)"
    by blast
  from slacks_and_multipliers_stay_positive [OF h p(4-6), of shift_problem kkt3_linalg _ _ ?n "niter ?F"] r'
  have two: "(\<forall>v \<in> set (st_s ?n). 0 < v) \<and> (\<forall>v \<in> set (drop (neq ?F) (st_lda ?n)). 0 < v)"
    by blast
  have c: "\<not> all_ge ?F (drop (neq ?F) (st_lda shift_state)) [- (11148460037 / 83886080)] 1"
    "drop (neq ?F) (st_lda shift_state) = [1]"
    "st_s ?n = [11165237243 / 83886080]" "st_lda ?n = [1 - al * (11148460037 / 83886080)]"
    by (simp_all add: all_ge_def shift_state_def shift_next_def)
  show ?thesis
    using shift_init l a body run one c
    by (intro exI [of _ al] exI [of _ ?n]) simp
qed

section \<open>The second-order correction of the line search\<close>

lemma no_raise_ret [simp]: "no_raise (ret v)"
  by (simp add: no_raise_def ret_def)

lemma no_raise_lift_opt [simp]: "no_raise (lift_opt m)"
  by (cases m) (simp_all add: no_raise_def lift_opt_def)


lemma soc_direction_cases:
  "soc_direction LA n A c_new =
     Inr (case (if length c_new = n then sym_solve LA A c_new else Inl ValueError) of
            Inr z \<Rightarrow> vneg z | Inl e \<Rightarrow> vneg (lstsq LA A c_new))"
  by (simp add: soc_direction_def try_except_def split: sum.splits)

lemma no_raise_soc_direction [simp]: "no_raise (lift_err (soc_direction LA n A c_new))"
  by (simp add: no_raise_def lift_err_def soc_direction_cases)
















end
